theory Spec2Isabelle
  imports Complex_Main "HOL-Library.Char_ord" "HOL-Library.List_Lexorder"
begin

section \<open>Tables of submission records\<close>

text \<open>
  \<^verbatim>\<open>Map_Province.py\<close> is a Streamlit script over pandas. The model starts at the parsed
  table (what \<^verbatim>\<open>pd.read_csv\<close> or \<^verbatim>\<open>pd.read_excel\<close> returned) and ends at the sequence of
  Streamlit elements the script emits; the parsers and the rendering libraries stay
  outside. The pandas operations are those of pandas 3.

  A cell is a null (\<^verbatim>\<open>None\<close>, \<^verbatim>\<open>NaN\<close>, \<^verbatim>\<open>NaT\<close> and \<^verbatim>\<open>pd.NA\<close> are the values \<^verbatim>\<open>pd.isna\<close> accepts; the
  model has one null), a number (integer or float; floats are idealised as reals, so
  rounding is not modelled), a text, or a timestamp (its wall-clock reading in nanoseconds
  since the epoch, as \<^verbatim>\<open>datetime64[ns]\<close> stores it).
\<close>

datatype cell = NA | is_Num: Num (the_Num: real) | is_Str: Str (the_Str: string)
  | is_Stamp: Stamp (the_Stamp: int)

definition notna :: "cell \<Rightarrow> bool" where
  "notna c = (c \<noteq> NA)"

definition isna :: "cell \<Rightarrow> bool" where
  "isna c = (c = NA)"

text \<open>The exceptions the pandas and Python operations of the script can raise.\<close>

datatype error = KeyError | ValueError | TypeError | AttributeError

definition bindE :: "error + 'a \<Rightarrow> ('a \<Rightarrow> error + 'b) \<Rightarrow> error + 'b" where
  "bindE m f = (case m of Inl e \<Rightarrow> Inl e | Inr x \<Rightarrow> f x)"

fun traverse :: "('a \<Rightarrow> error + 'b) \<Rightarrow> 'a list \<Rightarrow> error + 'b list" where
  "traverse f [] = Inr []"
| "traverse f (x # xs) =
     (case f x of Inl e \<Rightarrow> Inl e
      | Inr y \<Rightarrow> (case traverse f xs of Inl e \<Rightarrow> Inl e | Inr ys \<Rightarrow> Inr (y # ys)))"

text \<open>
  A DataFrame: the column labels, the dtype of each column and the rows, each row a list
  of cells in column order. Of the dtypes the script only ever tells \<^verbatim>\<open>datetime64\<close> from
  the rest (in \<^verbatim>\<open>Series.mean\<close>). A parsed table has pairwise different labels (both
  parsers rename duplicates) and rows as long as the label list; \<open>wf_frame\<close> says so.
\<close>

datatype dtype = Datetime64 | Other

record dataframe =
  columns :: "string list"
  dtypes :: "dtype list"
  rows :: "cell list list"

definition wf_frame :: "dataframe \<Rightarrow> bool" where
  "wf_frame df =
     (distinct (columns df) \<and> list_all (\<lambda>r. length r = length (columns df)) (rows df))"

text \<open>\<^verbatim>\<open>pd.DataFrame()\<close>: no columns, no rows.\<close>

definition DataFrame :: dataframe where
  "DataFrame = \<lparr>columns = [], dtypes = [], rows = []\<rparr>"

text \<open>\<^verbatim>\<open>df.empty\<close>: some axis has length 0.\<close>

definition df_empty :: "dataframe \<Rightarrow> bool" where
  "df_empty df = (columns df = [] \<or> rows df = [])"

text \<open>
  A row as the Series that \<^verbatim>\<open>df.apply(..., axis=1)\<close> hands to its function: the labels with
  the row's cells. \<^verbatim>\<open>row.get(k)\<close> is \<^verbatim>\<open>None\<close> (a null) for a missing label, \<^verbatim>\<open>row[k]\<close> raises
  \<^verbatim>\<open>KeyError\<close>.
\<close>

type_synonym series = "(string \<times> cell) list"

definition row_series :: "dataframe \<Rightarrow> cell list \<Rightarrow> series" where
  "row_series df r = zip (columns df) r"

definition series_get :: "series \<Rightarrow> string \<Rightarrow> cell" where
  "series_get row k = (case map_of row k of None \<Rightarrow> NA | Some c \<Rightarrow> c)"

definition series_getitem :: "series \<Rightarrow> string \<Rightarrow> error + cell" where
  "series_getitem row k = (case map_of row k of None \<Rightarrow> Inl KeyError | Some c \<Rightarrow> Inr c)"

text \<open>
  \<^verbatim>\<open>df[k]\<close>, used as a Series. A missing label raises \<^verbatim>\<open>KeyError\<close>. For a label that occurs
  once \<^verbatim>\<open>df[k]\<close> is that column. For a label that occurs more than once \<^verbatim>\<open>df[k]\<close> is a
  DataFrame of the columns that carry it, and the Series operation that follows is
  applied to a frame. The labels of a parsed table are pairwise different and the script
  adds the labels lat and lon only (lines 54 and 55), so only these two can occur twice,
  when the upload has a column of that name. The first use of \<^verbatim>\<open>df["lat"]\<close> and
  \<^verbatim>\<open>df["lon"]\<close> is line 74, where \<^verbatim>\<open>|\<close> of a two-column frame of booleans with another
  operand raises \<^verbatim>\<open>ValueError\<close> and ends the run; no other use of \<^verbatim>\<open>df[k]\<close> is reached
  with a label that occurs twice. \<open>getcol\<close> gives that \<^verbatim>\<open>ValueError\<close>.
\<close>

definition getcol :: "dataframe \<Rightarrow> string \<Rightarrow> error + cell list" where
  "getcol df k =
     (if k \<notin> set (columns df) then Inl KeyError
      else if 1 < count_list (columns df) k then Inl ValueError
      else Inr (map (\<lambda>r. series_get (row_series df r) k) (rows df)))"

fun index_of :: "string \<Rightarrow> string list \<Rightarrow> nat" where
  "index_of k [] = 0"
| "index_of k (c # cs) = (if c = k then 0 else Suc (index_of k cs))"

text \<open>The dtype of the column labelled \<open>k\<close>.\<close>

definition dtype_of :: "dataframe \<Rightarrow> string \<Rightarrow> dtype" where
  "dtype_of df k =
     (if index_of k (columns df) < length (dtypes df)
      then dtypes df ! index_of k (columns df) else Other)"

text \<open>
  \<^verbatim>\<open>df[k] = values\<close> for a Series of the given dtype: replaces the column in place when the
  label exists, appends it otherwise; \<^verbatim>\<open>ValueError\<close> when the lengths differ.
\<close>

definition setcol :: "dataframe \<Rightarrow> string \<Rightarrow> dtype \<Rightarrow> cell list \<Rightarrow> error + dataframe" where
  "setcol df k dt vs =
     (if length vs \<noteq> length (rows df) then Inl ValueError
      else if k \<in> set (columns df)
      then Inr (df\<lparr>dtypes := (dtypes df)[index_of k (columns df) := dt],
                   rows := map2 (\<lambda>r v. r[index_of k (columns df) := v]) (rows df) vs\<rparr>)
      else Inr \<lparr>columns = columns df @ [k], dtypes = dtypes df @ [dt],
                 rows = map2 (\<lambda>r v. r @ [v]) (rows df) vs\<rparr>)"

text \<open>\<^verbatim>\<open>df.columns = labels\<close>: \<^verbatim>\<open>ValueError\<close> (length mismatch) unless one label per column.\<close>

definition set_columns :: "dataframe \<Rightarrow> string list \<Rightarrow> error + dataframe" where
  "set_columns df labels =
     (if length labels \<noteq> length (columns df) then Inl ValueError
      else Inr (df\<lparr>columns := labels\<rparr>))"

text \<open>\<^verbatim>\<open>pd.concat([a, b], axis=1)\<close> of two frames over the same row index.\<close>

definition concat_axis1 :: "dataframe \<Rightarrow> dataframe \<Rightarrow> dataframe" where
  "concat_axis1 a b =
     \<lparr>columns = columns a @ columns b, dtypes = dtypes a @ dtypes b,
      rows = map2 (@) (rows a) (rows b)\<rparr>"

text \<open>\<^verbatim>\<open>df[mask]\<close>: the rows whose mask entry is true.\<close>

definition bool_index :: "dataframe \<Rightarrow> bool list \<Rightarrow> dataframe" where
  "bool_index df bs = df\<lparr>rows := map fst (filter snd (zip (rows df) bs))\<rparr>"

text \<open>
  \<^verbatim>\<open>df.dropna(subset=labels)\<close>: \<^verbatim>\<open>KeyError\<close> for an unknown label, else the rows with no
  null in any column that carries one of the labels (every such column, when a label
  occurs more than once).
\<close>

definition dropna :: "dataframe \<Rightarrow> string list \<Rightarrow> error + dataframe" where
  "dropna df ks =
     (if list_all (\<lambda>k. k \<in> set (columns df)) ks
      then Inr (df\<lparr>rows :=
        filter (\<lambda>r. list_all (\<lambda>(c, v). if c \<in> set ks then notna v else True) (row_series df r))
          (rows df)\<rparr>)
      else Inl KeyError)"

text \<open>
  The dtype pandas infers for a column built from Python values (\<^verbatim>\<open>infer_objects\<close>):
  \<^verbatim>\<open>datetime64\<close> when every value is a timestamp, not when a \<^verbatim>\<open>pd.NA\<close> or a value of
  another kind is among them.
\<close>

definition infer_dtype :: "cell list \<Rightarrow> dtype" where
  "infer_dtype xs = (if xs \<noteq> [] \<and> list_all is_Stamp xs then Datetime64 else Other)"

text \<open>
  \<^verbatim>\<open>df.apply(f, axis=1, result_type="expand")\<close> for an \<open>f\<close> that returns a pair. On a frame
  with an empty axis pandas does not call \<open>f\<close>: for every result type other than
  \<^verbatim>\<open>"reduce"\<close> and \<^verbatim>\<open>None\<close>, \<^verbatim>\<open>FrameApply.apply_empty_result\<close> returns a copy of the frame
  itself. Otherwise the pairs become the two columns labelled 0 and 1, with inferred
  dtypes.
\<close>

definition apply_expand :: "(series \<Rightarrow> error + cell \<times> cell) \<Rightarrow> dataframe \<Rightarrow> error + dataframe" where
  "apply_expand f df =
     (if df_empty df then Inr df
      else bindE (traverse f (map (row_series df) (rows df)))
        (\<lambda>ps. Inr \<lparr>columns = [''0'', ''1''],
                    dtypes = [infer_dtype (map fst ps), infer_dtype (map snd ps)],
                    rows = map (\<lambda>(a, b). [a, b]) ps\<rparr>))"

section \<open>Loading\<close>

text \<open>
  \<^verbatim>\<open>pd.to_datetime(col, errors=...)\<close>. pandas fixes one format from the first non-null value
  of the column and reads every value in that format. The reader of one value is a
  parameter: \<open>parse first c\<close> is what reading \<open>c\<close> gives in a column whose first non-null
  value is \<open>first\<close>, either nothing or the wall-clock time (nanoseconds since the epoch)
  with the UTC offset (seconds) the value carries, if it carries one. A null stays null.
  A value that cannot be read raises with \<^verbatim>\<open>errors="raise"\<close> (the default) and becomes
  \<^verbatim>\<open>NaT\<close> with \<^verbatim>\<open>errors="coerce"\<close>. Values read with different UTC offsets raise
  \<^verbatim>\<open>ValueError\<close> (mixed time zones) under either setting.
\<close>

type_synonym parser = "cell \<Rightarrow> cell \<Rightarrow> (int \<times> int option) option"

datatype errors_mode = Raise | Coerce

definition readings :: "parser \<Rightarrow> cell list \<Rightarrow> (int \<times> int option) option list" where
  "readings parse col =
     (case find notna col of
        None \<Rightarrow> map (\<lambda>c. None) col
      | Some first \<Rightarrow> map (\<lambda>c. if c = NA then None else parse first c) col)"

definition mixed_offsets :: "parser \<Rightarrow> cell list \<Rightarrow> bool" where
  "mixed_offsets parse col =
     (1 < length (remdups (map (\<lambda>r. snd (the r))
                     (filter (\<lambda>r. r \<noteq> None) (readings parse col)))))"

definition stamp_of :: "(int \<times> int option) option \<Rightarrow> cell" where
  "stamp_of r = (case r of None \<Rightarrow> NA | Some (t, off) \<Rightarrow> Stamp t)"

definition to_datetime :: "parser \<Rightarrow> errors_mode \<Rightarrow> cell list \<Rightarrow> error + cell list" where
  "to_datetime parse mode col =
     (if mode = Raise \<and> list_ex (\<lambda>(c, r). c \<noteq> NA \<and> r = None) (zip col (readings parse col))
      then Inl ValueError
      else if mixed_offsets parse col then Inl ValueError
      else Inr (map stamp_of (readings parse col)))"

text \<open>
  Two readers for the examples. \<open>stamps_only\<close> accepts the cells that are timestamps
  already (the datetime cells of a spreadsheet) and nothing else. \<open>example_parser\<close> also
  reads five texts the way pandas does: each has a format, a text is read when the first
  non-null value is no text, is a text without a format, or is a text of the same format.
\<close>

definition stamps_only :: parser where
  "stamps_only first c = (case c of Stamp t \<Rightarrow> Some (t, None) | _ \<Rightarrow> None)"

definition text_format :: "string \<Rightarrow> string option" where
  "text_format s =
     (if s = ''2024-01-15'' \<or> s = ''2024-01-16'' then Some ''%Y-%m-%d''
      else if s = ''01/15/2024'' then Some ''%m/%d/%Y''
      else if s = ''2024-01-15T10:00:00+01:00'' \<or> s = ''2024-01-15T10:00:00+02:00''
      then Some ''%Y-%m-%dT%H:%M:%S%z''
      else None)"

definition text_reading :: "string \<Rightarrow> (int \<times> int option) option" where
  "text_reading s =
     (if s = ''2024-01-15'' \<or> s = ''01/15/2024'' then Some (1705276800000000000, None)
      else if s = ''2024-01-16'' then Some (1705363200000000000, None)
      else if s = ''2024-01-15T10:00:00+01:00'' then Some (1705312800000000000, Some 3600)
      else if s = ''2024-01-15T10:00:00+02:00'' then Some (1705312800000000000, Some 7200)
      else None)"

definition example_parser :: parser where
  "example_parser first c =
     (case c of
        Stamp t \<Rightarrow> Some (t, None)
      | Str s \<Rightarrow>
         (case first of
            Str f \<Rightarrow> if text_format f = None \<or> text_format s = text_format f
                     then text_reading s else None
          | _ \<Rightarrow> text_reading s)
      | _ \<Rightarrow> None)"

definition pick_coordinates :: "series \<Rightarrow> error + cell \<times> cell" where
  "pick_coordinates row =
     (if notna (series_get row ''Geopoint1-Latitude'')
         \<and> notna (series_get row ''Geopoint1-Longitude'')
      then bindE (series_getitem row ''Geopoint1-Latitude'') (\<lambda>la.
           bindE (series_getitem row ''Geopoint1-Longitude'') (\<lambda>lo. Inr (la, lo)))
      else if notna (series_get row ''geopoint-Latitude'')
         \<and> notna (series_get row ''geopoint-Longitude'')
      then bindE (series_getitem row ''geopoint-Latitude'') (\<lambda>la.
           bindE (series_getitem row ''geopoint-Longitude'') (\<lambda>lo. Inr (la, lo)))
      else Inr (NA, NA))"

text \<open>The elements the script puts on the page.\<close>

record deck =
  layer_data :: dataframe
  latitude :: cell
  longitude :: cell
  zoom :: nat
  pitch :: nat

datatype widget =
    St_title string
  | St_sidebar_header string
  | St_file_uploader string
  | St_selectbox string "cell list"
  | St_header string
  | St_markdown string
  | St_warning string
  | St_error string
  | St_info string
  | St_success string
  | St_plotly_line "(int \<times> nat) list"
  | St_pydeck_chart deck
  | St_dataframe dataframe
  | St_download_button string dataframe string

text \<open>
  \<open>load_data\<close> returns the messages it reported with \<^verbatim>\<open>st.error\<close> and either the exception
  that left it or the frame it returned.
\<close>

definition load_data :: "parser \<Rightarrow> dataframe \<Rightarrow> widget list \<times> (error + dataframe)" where
  "load_data parse df =
     (if ''Province'' \<notin> set (columns df)
      then ([St_error ''The file must contain a 'Province' column.''], Inr DataFrame)
      else if ''SubmissionDate'' \<notin> set (columns df)
      then ([St_error ''The file must contain a 'SubmissionDate' column.''], Inr DataFrame)
      else ([],
        bindE (getcol df ''SubmissionDate'') (\<lambda>col.
        bindE (to_datetime parse Coerce col) (\<lambda>ts.
        bindE (setcol df ''SubmissionDate'' Datetime64 ts) (\<lambda>df1.
        bindE (apply_expand pick_coordinates df1) (\<lambda>coords.
        bindE (set_columns coords [''lat'', ''lon'']) (\<lambda>coords'.
        Inr (concat_axis1 df1 coords'))))))))"

section \<open>Filtering\<close>

text \<open>
  \<^verbatim>\<open>sorted(values)\<close> of Python: values of one kind are ordered (texts by code point, which
  is the order of their bytes), values of different kinds do not compare (\<^verbatim>\<open>TypeError\<close>).
\<close>

definition py_sorted :: "cell list \<Rightarrow> error + cell list" where
  "py_sorted xs =
     (if list_all is_Str xs then Inr (map Str (sort (map the_Str xs)))
      else if list_all is_Num xs then Inr (map Num (sort (map the_Num xs)))
      else if list_all is_Stamp xs then Inr (map Stamp (sort (map the_Stamp xs)))
      else Inl TypeError)"

text \<open>
  \<^verbatim>\<open>["All Provinces"] + sorted(df["Province"].dropna().unique().tolist())\<close>: the options of
  the selector.
\<close>

definition province_list :: "dataframe \<Rightarrow> error + cell list" where
  "province_list df =
     bindE (getcol df ''Province'') (\<lambda>col.
     bindE (py_sorted (remdups (filter notna col))) (\<lambda>names.
     Inr (Str ''All Provinces'' # names)))"

text \<open>
  \<^verbatim>\<open>st.sidebar.selectbox\<close> returns one of its options: the user's pick, the first option
  when there is no pick among them.
\<close>

definition selectbox :: "cell list \<Rightarrow> cell \<Rightarrow> cell" where
  "selectbox options pick =
     (case options of [] \<Rightarrow> pick | first # _ \<Rightarrow> if pick \<in> set options then pick else first)"

text \<open>The elementwise \<^verbatim>\<open>==\<close> of a column with a value: a null equals nothing.\<close>

definition cell_eq :: "cell \<Rightarrow> cell \<Rightarrow> bool" where
  "cell_eq c v = (c \<noteq> NA \<and> v \<noteq> NA \<and> c = v)"

text \<open>
  Lines 68 to 70: \<^verbatim>\<open>filtered = df.copy()\<close>, narrowed to
  \<^verbatim>\<open>filtered[filtered["Province"] == selected_province]\<close> unless the selection is the
  sentinel.
\<close>

definition filtered_by :: "dataframe \<Rightarrow> cell \<Rightarrow> error + dataframe" where
  "filtered_by df selected_province =
     (if selected_province \<noteq> Str ''All Provinces''
      then bindE (getcol df ''Province'') (\<lambda>col.
           Inr (bool_index df (map (\<lambda>c. cell_eq c selected_province) col)))
      else Inr df)"

section \<open>Presenting\<close>

text \<open>Line 73: \<^verbatim>\<open>filtered.dropna(subset=["lat", "lon"])\<close>.\<close>

definition valid_coords :: "dataframe \<Rightarrow> error + dataframe" where
  "valid_coords filtered = dropna filtered [''lat'', ''lon'']"

text \<open>Line 74: \<^verbatim>\<open>filtered[filtered["lat"].isna() | filtered["lon"].isna()]\<close>.\<close>

definition missing_coords :: "dataframe \<Rightarrow> error + dataframe" where
  "missing_coords filtered =
     bindE (getcol filtered ''lat'') (\<lambda>la.
     bindE (getcol filtered ''lon'') (\<lambda>lo.
     Inr (bool_index filtered (map2 (\<or>) (map isna la) (map isna lo)))))"

text \<open>
  \<^verbatim>\<open>.dt.date\<close>: the calendar day of each timestamp (the number of the day since the epoch),
  null for \<^verbatim>\<open>NaT\<close>; \<^verbatim>\<open>AttributeError\<close> when the column is not a datetime column.
\<close>

definition ns_per_day :: int where
  "ns_per_day = 86400000000000"

definition dt_date :: "cell list \<Rightarrow> error + int option list" where
  "dt_date col =
     (if list_all (\<lambda>c. c = NA \<or> is_Stamp c) col
      then Inr (map (\<lambda>c. (case c of Stamp t \<Rightarrow> Some (t div ns_per_day) | _ \<Rightarrow> None)) col)
      else Inl AttributeError)"

text \<open>
  \<^verbatim>\<open>groupby(key).size().reset_index(name="count")\<close>: one (key, count) row per key, keys
  ascending, null keys left out. \<open>bump\<close> counts one more record under its day.
\<close>

fun bump :: "int \<Rightarrow> (int \<times> nat) list \<Rightarrow> (int \<times> nat) list" where
  "bump d [] = [(d, 1)]"
| "bump d ((e, n) # ps) =
     (if d = e then (e, Suc n) # ps
      else if d < e then (d, 1) # (e, n) # ps
      else (e, n) # bump d ps)"

definition groupby_size :: "int option list \<Rightarrow> (int \<times> nat) list" where
  "groupby_size ks = fold bump (map the (filter (\<lambda>k. k \<noteq> None) ks)) []"

text \<open>Lines 78 to 85: the chart of submissions per day, or the empty-state message.\<close>

definition timeline :: "dataframe \<Rightarrow> error + widget list" where
  "timeline filtered =
     bindE (getcol filtered ''SubmissionDate'') (\<lambda>col.
     if list_ex notna col
     then bindE (dropna filtered [''SubmissionDate'']) (\<lambda>times.
          bindE (getcol times ''SubmissionDate'') (\<lambda>stamps.
          bindE (dt_date stamps) (\<lambda>date_only.
          Inr [St_plotly_line (groupby_size date_only)])))
     else Inr [St_info ''No valid SubmissionDate values found.''])"

text \<open>
  \<^verbatim>\<open>Series.mean()\<close> of a column of the given dtype: nulls are skipped; the mean of nothing
  is null; the mean of numbers is a number; the mean of a \<^verbatim>\<open>datetime64\<close> column is a
  timestamp (rounding is not modelled); a text, or a timestamp in a column that is not
  \<^verbatim>\<open>datetime64\<close>, raises \<^verbatim>\<open>TypeError\<close>.
\<close>

definition mean :: "dtype \<Rightarrow> cell list \<Rightarrow> error + cell" where
  "mean dt xs =
     (let ys = filter notna xs in
      if ys = [] then Inr NA
      else if list_all is_Num ys
      then Inr (Num (sum_list (map the_Num ys) / real (length ys)))
      else if dt = Datetime64 \<and> list_all is_Stamp ys
      then Inr (Stamp (sum_list (map the_Stamp ys) div int (length ys)))
      else Inl TypeError)"

text \<open>Lines 92 to 153: the map of the rows with coordinates, or the empty-state message.\<close>

definition map_of_submissions :: "dataframe \<Rightarrow> error + widget list" where
  "map_of_submissions valid =
     (if df_empty valid
      then Inr [St_info ''No valid GPS coordinates found for the selected province.'']
      else bindE (getcol valid ''lat'') (\<lambda>lats.
           bindE (mean (dtype_of valid ''lat'') lats) (\<lambda>center_lat.
           bindE (getcol valid ''lon'') (\<lambda>lons.
           bindE (mean (dtype_of valid ''lon'') lons) (\<lambda>center_lon.
           Inr [St_pydeck_chart \<lparr>layer_data = valid, latitude = center_lat,
                  longitude = center_lon, zoom = 6, pitch = 0\<rparr>])))))"

fun str_nat :: "nat \<Rightarrow> string" where
  "str_nat n =
     (if n < 10 then [''0123456789'' ! n]
      else str_nat (n div 10) @ [''0123456789'' ! (n mod 10)])"

text \<open>Lines 159 to 171: the report of the rows without coordinates.\<close>

definition missing_report :: "dataframe \<Rightarrow> widget list" where
  "missing_report missing =
     (if df_empty missing then [St_success ''All records have GPS Points.'']
      else [St_warning (str_nat (length (rows missing)) @ '' records are missing GPS Points.''),
            St_dataframe missing,
            St_download_button ''Download Records Missing GPS Points (CSV)'' missing
              ''missing_gps.csv''])"

text \<open>
  The script, top to bottom: the uploaded table (if any) and the user's pick in the
  selector give the elements on the page, or the exception that ended the run.
  \<^verbatim>\<open>st.stop()\<close> ends the run with the elements emitted so far.
\<close>

definition page_head :: "widget list" where
  "page_head =
     [St_title ''Submission Map & Timeline'', St_sidebar_header ''Upload Data File'',
      St_file_uploader ''Upload CSV or Excel file'']"

definition script :: "parser \<Rightarrow> dataframe option \<Rightarrow> cell \<Rightarrow> error + widget list" where
  "script parse uploaded_file pick =
     (case uploaded_file of
        None \<Rightarrow> Inr (page_head @ [St_warning ''Please upload a CSV or Excel file to begin.''])
      | Some raw \<Rightarrow>
         (case load_data parse raw of
            (msgs, Inl e) \<Rightarrow> Inl e
          | (msgs, Inr df) \<Rightarrow>
             if df_empty df then Inr (page_head @ msgs)
             else bindE (province_list df) (\<lambda>options.
                  bindE (filtered_by df (selectbox options pick)) (\<lambda>filtered.
                  bindE (valid_coords filtered) (\<lambda>valid.
                  bindE (missing_coords filtered) (\<lambda>missing.
                  bindE (timeline filtered) (\<lambda>chart.
                  bindE (map_of_submissions valid) (\<lambda>deck_map.
                  Inr (page_head @ msgs @ [St_selectbox ''Select Province'' options]
                       @ [St_header ''Submissions Over Time''] @ chart
                       @ [St_markdown ''---'', St_header ''Map of Submissions''] @ deck_map
                       @ [St_header ''Records with No GPS Points'']
                       @ missing_report missing)))))))))"

section \<open>What loading computes, row by row\<close>

text \<open>
  Functions used to state the lemmas about \<open>load_data\<close>: the pair that
  \<open>pick_coordinates\<close> returns, the SubmissionDate column of a table, a row after line 42
  rewrote its timestamp, a row of the loaded table, and the loaded table.
\<close>

definition resolved :: "series \<Rightarrow> cell \<times> cell" where
  "resolved row =
     (if notna (series_get row ''Geopoint1-Latitude'')
         \<and> notna (series_get row ''Geopoint1-Longitude'')
      then (series_get row ''Geopoint1-Latitude'', series_get row ''Geopoint1-Longitude'')
      else if notna (series_get row ''geopoint-Latitude'')
         \<and> notna (series_get row ''geopoint-Longitude'')
      then (series_get row ''geopoint-Latitude'', series_get row ''geopoint-Longitude'')
      else (NA, NA))"

definition date_column :: "dataframe \<Rightarrow> cell list" where
  "date_column df = map (\<lambda>r. series_get (row_series df r) ''SubmissionDate'') (rows df)"

definition convert_ts :: "parser \<Rightarrow> dataframe \<Rightarrow> cell \<Rightarrow> cell" where
  "convert_ts parse df c =
     (case find notna (date_column df) of
        None \<Rightarrow> NA
      | Some first \<Rightarrow> if c = NA then NA else stamp_of (parse first c))"

definition dated :: "parser \<Rightarrow> dataframe \<Rightarrow> cell list \<Rightarrow> cell list" where
  "dated parse df r =
     r[index_of ''SubmissionDate'' (columns df) :=
         convert_ts parse df (series_get (row_series df r) ''SubmissionDate'')]"

definition loaded_row :: "parser \<Rightarrow> dataframe \<Rightarrow> cell list \<Rightarrow> cell list" where
  "loaded_row parse df r =
     (let r' = dated parse df r; p = resolved (zip (columns df) r') in r' @ [fst p, snd p])"

definition loaded :: "parser \<Rightarrow> dataframe \<Rightarrow> dataframe" where
  "loaded parse df =
     \<lparr>columns = columns df @ [''lat'', ''lon''],
      dtypes = (dtypes df)[index_of ''SubmissionDate'' (columns df) := Datetime64]
        @ [infer_dtype (map (\<lambda>r. fst (resolved (zip (columns df) (dated parse df r)))) (rows df)),
           infer_dtype (map (\<lambda>r. snd (resolved (zip (columns df) (dated parse df r)))) (rows df))],
      rows = map (loaded_row parse df) (rows df)\<rparr>"

section \<open>Lemmas about the table operations\<close>

lemma traverse_Inr:
  "(\<And>x. x \<in> set xs \<Longrightarrow> f x = Inr (g x)) \<Longrightarrow> traverse f xs = Inr (map g xs)"
  by (induction xs) auto

lemma map2_map_same: "map2 f xs (map g xs) = map (\<lambda>x. f x (g x)) xs"
  by (induction xs) auto

lemma filter_zip_map: "map fst (filter snd (zip xs (map p xs))) = filter p xs"
  by (induction xs) auto

lemma getitem_notna:
  "notna (series_get row k) \<Longrightarrow> series_getitem row k = Inr (series_get row k)"
  by (auto simp: notna_def series_get_def series_getitem_def split: option.splits)

lemma pick_coordinates_resolved: "pick_coordinates row = Inr (resolved row)"
  by (simp add: pick_coordinates_def resolved_def bindE_def getitem_notna)

lemma count_list_distinct: "distinct xs \<Longrightarrow> count_list xs k \<le> 1"
  by (induction xs) (auto simp: count_list_0_iff)

lemma getcol_present:
  "k \<in> set (columns df) \<Longrightarrow> distinct (columns df) \<Longrightarrow>
     getcol df k = Inr (map (\<lambda>r. series_get (row_series df r) k) (rows df))"
  using count_list_distinct [of "columns df" k] by (simp add: getcol_def)

lemma to_datetime_coerce:
  "to_datetime parse Coerce col =
     (if mixed_offsets parse col then Inl ValueError
      else Inr (map stamp_of (readings parse col)))"
  by (simp add: to_datetime_def)

lemma readings_convert:
  "map stamp_of (readings parse (date_column df)) = map (convert_ts parse df) (date_column df)"
  by (cases "find notna (date_column df)")
    (simp_all add: readings_def convert_ts_def stamp_of_def)

lemma load_data_rows:
  assumes "distinct (columns df)"
    and "''Province'' \<in> set (columns df)" "''SubmissionDate'' \<in> set (columns df)"
    and "rows df \<noteq> []" and "\<not> mixed_offsets parse (date_column df)"
  shows "load_data parse df = ([], Inr (loaded parse df))"
proof -
  let ?i = "index_of ''SubmissionDate'' (columns df)"
  let ?df1 = "df\<lparr>dtypes := (dtypes df)[?i := Datetime64],
                  rows := map (dated parse df) (rows df)\<rparr>"
  let ?ps = "map resolved (map (row_series ?df1) (rows ?df1))"
  let ?co = "\<lparr>columns = [''0'', ''1''],
           dtypes = [infer_dtype (map fst ?ps), infer_dtype (map snd ?ps)],
           rows = map (\<lambda>(a, b). [a, b]) ?ps\<rparr>"
  have c: "columns df \<noteq> []" using assms(2) by auto
  have g: "getcol df ''SubmissionDate'' = Inr (date_column df)"
    unfolding date_column_def by (rule getcol_present [OF assms(3,1)])
  have t: "to_datetime parse Coerce (date_column df)
      = Inr (map (convert_ts parse df) (date_column df))"
    using assms(5) by (simp add: to_datetime_coerce readings_convert)
  have s: "setcol df ''SubmissionDate'' Datetime64 (map (convert_ts parse df) (date_column df))
      = Inr ?df1"
    using assms(3) by (simp add: setcol_def map2_map_same dated_def date_column_def o_def)
  have a: "apply_expand pick_coordinates ?df1 = Inr ?co"
    using c assms(4)
    by (simp add: apply_expand_def df_empty_def bindE_def
        traverse_Inr [where g = resolved] pick_coordinates_resolved)
  have sc: "set_columns ?co [''lat'', ''lon''] = Inr (?co\<lparr>columns := [''lat'', ''lon'']\<rparr>)"
    by (simp add: set_columns_def)
  have z: "map2 (@) (map f xs) (map (\<lambda>(a, b). [a, b]) (map g (map h (map f xs))))
      = map (\<lambda>x. f x @ [fst (g (h (f x))), snd (g (h (f x)))]) xs"
    for f :: "cell list \<Rightarrow> cell list" and g :: "series \<Rightarrow> cell \<times> cell" and h xs
    by (induction xs) (auto simp: split_beta)
  have cc: "concat_axis1 ?df1 (?co\<lparr>columns := [''lat'', ''lon'']\<rparr>) = loaded parse df"
    by (simp add: concat_axis1_def z loaded_def loaded_row_def Let_def row_series_def
        del: map_map) (simp add: o_def row_series_def)
  have "load_data parse df = ([], Inr (concat_axis1 ?df1 (?co\<lparr>columns := [''lat'', ''lon'']\<rparr>)))"
    unfolding load_data_def bindE_def g t s a sc sum.case using assms(2,3) by simp
  then show ?thesis by (simp only: cc)
qed

lemma load_data_mixed:
  assumes "distinct (columns df)"
    and "''Province'' \<in> set (columns df)" "''SubmissionDate'' \<in> set (columns df)"
    and "mixed_offsets parse (date_column df)"
  shows "load_data parse df = ([], Inl ValueError)"
proof -
  have g: "getcol df ''SubmissionDate'' = Inr (date_column df)"
    unfolding date_column_def by (rule getcol_present [OF assms(3,1)])
  show ?thesis
    unfolding load_data_def bindE_def g sum.case using assms(2,3,4)
    by (simp add: to_datetime_coerce)
qed

lemma load_data_no_rows:
  assumes "distinct (columns df)"
    and "''Province'' \<in> set (columns df)" "''SubmissionDate'' \<in> set (columns df)"
    and "rows df = []"
  shows "load_data parse df =
    ([], if length (columns df) = 2
         then Inr \<lparr>columns = columns df @ [''lat'', ''lon''],
                   dtypes = (dtypes df)[index_of ''SubmissionDate'' (columns df) := Datetime64]
                     @ (dtypes df)[index_of ''SubmissionDate'' (columns df) := Datetime64],
                   rows = []\<rparr>
         else Inl ValueError)"
proof -
  have g: "getcol df ''SubmissionDate'' = Inr []"
    using getcol_present [OF assms(3,1)] assms(4) by simp
  have t: "to_datetime parse Coerce [] = Inr []"
    by (simp add: to_datetime_coerce mixed_offsets_def readings_def)
  show ?thesis
    unfolding load_data_def bindE_def g t sum.case using assms(2,3,4)
    by (auto simp: setcol_def apply_expand_def df_empty_def set_columns_def concat_axis1_def)
qed

lemma not_mixed_no_rows: "rows df = [] \<Longrightarrow> \<not> mixed_offsets parse (date_column df)"
  by (simp add: mixed_offsets_def readings_def date_column_def)

lemma load_data_success:
  assumes "distinct (columns df)"
    and "''Province'' \<in> set (columns df)" "''SubmissionDate'' \<in> set (columns df)"
    and "load_data parse df = (msgs, Inr out)"
  shows "msgs = [] \<and> columns out = columns df @ [''lat'', ''lon'']
    \<and> rows out = map (loaded_row parse df) (rows df)
    \<and> \<not> mixed_offsets parse (date_column df)"
proof (cases "rows df = []")
  case True
  then show ?thesis
    using assms load_data_no_rows [OF assms(1,2,3) True, of parse] not_mixed_no_rows [OF True]
    by (auto split: if_splits)
next
  case False
  show ?thesis
  proof (cases "mixed_offsets parse (date_column df)")
    case True
    from load_data_mixed [OF assms(1,2,3) True] assms(4) show ?thesis by simp
  next
    case nm: False
    from load_data_rows [OF assms(1,2,3) False nm] assms(4) nm show ?thesis
      by (auto simp: loaded_def)
  qed
qed

lemma load_data_missing:
  assumes "''Province'' \<notin> set (columns df) \<or> ''SubmissionDate'' \<notin> set (columns df)"
  shows "load_data parse df =
    ([St_error (if ''Province'' \<notin> set (columns df)
        then ''The file must contain a 'Province' column.''
        else ''The file must contain a 'SubmissionDate' column.'')], Inr DataFrame)"
  using assms by (auto simp: load_data_def)

lemma load_data_row_cases:
  assumes "load_data parse df = (msgs, Inr out)" and "r \<in> set (rows out)"
  shows "''Province'' \<in> set (columns df) \<and> ''SubmissionDate'' \<in> set (columns df)"
proof (rule ccontr)
  assume "\<not> ?thesis"
  then have "''Province'' \<notin> set (columns df) \<or> ''SubmissionDate'' \<notin> set (columns df)"
    by blast
  from load_data_missing [OF this, of parse] assms show False
    by (simp add: DataFrame_def)
qed

lemma index_of_nth: "k \<in> set cs \<Longrightarrow> cs ! index_of k cs = k"
  by (induction cs) auto

lemma series_get_absent: "k \<notin> set cs \<Longrightarrow> series_get (zip cs r) k = NA"
proof -
  assume "k \<notin> set cs"
  then have "k \<notin> fst ` set (zip cs r)" by (auto dest: set_zip_leftD)
  then have "map_of (zip cs r) k = None" by (simp add: map_of_eq_None_iff)
  then show ?thesis by (simp add: series_get_def)
qed

lemma series_get_update_other:
  "k \<noteq> d \<Longrightarrow> series_get (zip cs (r[index_of d cs := v])) k = series_get (zip cs r) k"
proof (induction cs arbitrary: r)
  case Nil
  then show ?case by simp
next
  case (Cons c cs)
  then show ?case
    by (cases r) (auto simp: series_get_def)
qed

lemma series_get_update_same:
  "d \<in> set cs \<Longrightarrow> length r = length cs \<Longrightarrow>
     series_get (zip cs (r[index_of d cs := v])) d = v"
proof (induction cs arbitrary: r)
  case Nil
  then show ?case by simp
next
  case (Cons c cs)
  then show ?case
    by (cases r) (auto simp: series_get_def)
qed

lemma series_get_append:
  "series_get (xs @ ys) k = (case map_of xs k of None \<Rightarrow> series_get ys k | Some c \<Rightarrow> c)"
  by (simp add: series_get_def map_add_def split: option.splits)

lemma series_get_loaded:
  assumes "length r = length cs" and "k \<noteq> ''lat''" and "k \<noteq> ''lon''"
  shows "series_get (zip (cs @ [''lat'', ''lon'']) (r @ [a, b])) k = series_get (zip cs r) k"
proof -
  have t: "series_get [(''lat'', a), (''lon'', b)] k = NA"
    using assms(2,3) by (simp add: series_get_def)
  have z: "zip (cs @ [''lat'', ''lon'']) (r @ [a, b]) = zip cs r @ [(''lat'', a), (''lon'', b)]"
    using assms(1) by simp
  show ?thesis
  proof (cases "map_of (zip cs r) k")
    case None
    then show ?thesis unfolding z series_get_append t by (simp add: series_get_def)
  next
    case (Some c)
    then show ?thesis unfolding z series_get_append by (simp add: series_get_def)
  qed
qed

lemma length_dated: "length (dated parse df r) = length r"
  by (simp add: dated_def)

lemma loaded_pair:
  assumes "wf_frame df" and "load_data parse df = (msgs, Inr out)" and "r \<in> set (rows out)"
  shows "columns out = columns df @ [''lat'', ''lon''] \<and> length r = length (columns out) \<and>
    (let row = row_series out r; n = length (columns df);
         a_lat = series_get row ''Geopoint1-Latitude'';
         a_lon = series_get row ''Geopoint1-Longitude'';
         b_lat = series_get row ''geopoint-Latitude'';
         b_lon = series_get row ''geopoint-Longitude''
     in (r ! n, r ! Suc n) =
         (if notna a_lat \<and> notna a_lon then (a_lat, a_lon)
          else if notna b_lat \<and> notna b_lon then (b_lat, b_lon)
          else (NA, NA)))"
proof -
  have req: "''Province'' \<in> set (columns df)" "''SubmissionDate'' \<in> set (columns df)"
    using load_data_row_cases [OF assms(2,3)] by auto
  have dis: "distinct (columns df)" using assms(1) by (simp add: wf_frame_def)
  from load_data_success [OF dis req assms(2)]
  have out: "columns out = columns df @ [''lat'', ''lon'']"
    "rows out = map (loaded_row parse df) (rows df)" by simp_all
  with assms(3) obtain r0 where r0: "r0 \<in> set (rows df)" "r = loaded_row parse df r0"
    by auto
  define r' where "r' = dated parse df r0"
  define p where "p = resolved (zip (columns df) r')"
  have len: "length r' = length (columns df)"
    using assms(1) r0(1) by (simp add: r'_def length_dated wf_frame_def list_all_iff)
  have r: "r = r' @ [fst p, snd p]"
    using r0(2) by (simp add: loaded_row_def r'_def p_def Let_def)
  have get: "series_get (row_series out r) k = series_get (zip (columns df) r') k"
    if "k \<noteq> ''lat''" "k \<noteq> ''lon''" for k
    using series_get_loaded [OF len that] by (simp add: row_series_def out r)
  have g: "series_get (row_series out r) ''Geopoint1-Latitude''
        = series_get (zip (columns df) r') ''Geopoint1-Latitude''"
      "series_get (row_series out r) ''Geopoint1-Longitude''
        = series_get (zip (columns df) r') ''Geopoint1-Longitude''"
      "series_get (row_series out r) ''geopoint-Latitude''
        = series_get (zip (columns df) r') ''geopoint-Latitude''"
      "series_get (row_series out r) ''geopoint-Longitude''
        = series_get (zip (columns df) r') ''geopoint-Longitude''"
    by (simp_all add: get)
  have nth: "r ! length (columns df) = fst p" "r ! Suc (length (columns df)) = snd p"
    using len by (simp_all add: r nth_append)
  have "columns out = columns df @ [''lat'', ''lon'']" "length r = length (columns out)"
    using len by (simp_all add: out r)
  moreover have "(fst p, snd p) =
      (if notna (series_get (zip (columns df) r') ''Geopoint1-Latitude'')
          \<and> notna (series_get (zip (columns df) r') ''Geopoint1-Longitude'')
       then (series_get (zip (columns df) r') ''Geopoint1-Latitude'',
             series_get (zip (columns df) r') ''Geopoint1-Longitude'')
       else if notna (series_get (zip (columns df) r') ''geopoint-Latitude'')
          \<and> notna (series_get (zip (columns df) r') ''geopoint-Longitude'')
       then (series_get (zip (columns df) r') ''geopoint-Latitude'',
             series_get (zip (columns df) r') ''geopoint-Longitude'')
       else (NA, NA))"
    by (simp add: p_def resolved_def)
  ultimately show ?thesis
    unfolding Let_def g nth by blast
qed

text \<open>The facts that evaluate \<open>load_data\<close> on a concrete table.\<close>

lemmas load_eval =
  load_data_rows loaded_def loaded_row_def dated_def convert_ts_def date_column_def
  resolved_def row_series_def series_get_def notna_def stamp_of_def infer_dtype_def
  mixed_offsets_def readings_def stamps_only_def

section \<open>Coordinate resolution\<close>

text \<open>
  Claim C1. In every row of the loaded table the derived pair (the two cells appended
  under the labels lat and lon) is resolved by a strict fallback: pair A
  (Geopoint1-Latitude, Geopoint1-Longitude) when both its fields are non-null, whatever
  pair B holds; otherwise pair B (geopoint-Latitude, geopoint-Longitude) when both its
  fields are non-null; otherwise two nulls. The cells are copied as they are: nothing is
  averaged and no range is checked.
\<close>

theorem coordinates_resolved_by_fallback:
  assumes "wf_frame df" and "load_data parse df = (msgs, Inr out)" and "r \<in> set (rows out)"
  shows "columns out = columns df @ [''lat'', ''lon''] \<and> length r = length (columns out) \<and>
    (let row = row_series out r; n = length (columns df);
         a_lat = series_get row ''Geopoint1-Latitude'';
         a_lon = series_get row ''Geopoint1-Longitude'';
         b_lat = series_get row ''geopoint-Latitude'';
         b_lon = series_get row ''geopoint-Longitude''
     in (r ! n, r ! Suc n) =
         (if notna a_lat \<and> notna a_lon then (a_lat, a_lon)
          else if notna b_lat \<and> notna b_lon then (b_lat, b_lon)
          else (NA, NA)))"
  using assms by (rule loaded_pair)

theorem coordinates_resolved_by_fallback_witness:
  "wf_frame \<lparr>columns = [''Province'', ''SubmissionDate'', ''Geopoint1-Latitude'',
        ''Geopoint1-Longitude'', ''geopoint-Latitude'', ''geopoint-Longitude''],
      dtypes = [Other, Other, Other, Other, Other, Other],
      rows = [[Str ''A'', NA, Num 1, NA, Num 5, Num 6]]\<rparr>
   \<and> load_data stamps_only \<lparr>columns = [''Province'', ''SubmissionDate'', ''Geopoint1-Latitude'',
        ''Geopoint1-Longitude'', ''geopoint-Latitude'', ''geopoint-Longitude''],
      dtypes = [Other, Other, Other, Other, Other, Other],
      rows = [[Str ''A'', NA, Num 1, NA, Num 5, Num 6]]\<rparr>
     = ([], Inr \<lparr>columns = [''Province'', ''SubmissionDate'', ''Geopoint1-Latitude'',
        ''Geopoint1-Longitude'', ''geopoint-Latitude'', ''geopoint-Longitude'', ''lat'', ''lon''],
      dtypes = [Other, Datetime64, Other, Other, Other, Other, Other, Other],
      rows = [[Str ''A'', NA, Num 1, NA, Num 5, Num 6, Num 5, Num 6]]\<rparr>)
   \<and> ([Str ''A'', NA, Num 1, NA, Num 5, Num 6, Num 5, Num 6] ! 6,
      [Str ''A'', NA, Num 1, NA, Num 5, Num 6, Num 5, Num 6] ! Suc 6) = (Num 5, Num 6)"
proof -
  let ?df = "\<lparr>columns = [''Province'', ''SubmissionDate'', ''Geopoint1-Latitude'',
        ''Geopoint1-Longitude'', ''geopoint-Latitude'', ''geopoint-Longitude''],
      dtypes = [Other, Other, Other, Other, Other, Other],
      rows = [[Str ''A'', NA, Num 1, NA, Num 5, Num 6]]\<rparr>"
  let ?r = "[Str ''A'', NA, Num 1, NA, Num 5, Num 6, Num 5, Num 6]"
  let ?out = "\<lparr>columns = [''Province'', ''SubmissionDate'', ''Geopoint1-Latitude'',
        ''Geopoint1-Longitude'', ''geopoint-Latitude'', ''geopoint-Longitude'', ''lat'', ''lon''],
      dtypes = [Other, Datetime64, Other, Other, Other, Other, Other, Other],
      rows = [?r]\<rparr>"
  have w: "wf_frame ?df" by (simp add: wf_frame_def)
  have l: "load_data stamps_only ?df = ([], Inr ?out)"
    by (simp add: load_eval)
  have m: "?r \<in> set (rows ?out)" by simp
  from coordinates_resolved_by_fallback [OF w l m] w l show ?thesis
    by (simp add: row_series_def series_get_def notna_def)
qed

section \<open>Filtering and routing\<close>

lemma bool_index_map: "bool_index df (map p (rows df)) = df\<lparr>rows := filter p (rows df)\<rparr>"
  by (simp add: bool_index_def filter_zip_map)

lemma dropna_test:
  assumes "distinct cs" and "length r = length cs" and "set ks \<subseteq> set cs"
  shows "list_all (\<lambda>(c, v). if c \<in> set ks then notna v else True) (zip cs r)
       = list_all (\<lambda>k. notna (series_get (zip cs r) k)) ks"
proof -
  have d: "distinct (map fst (zip cs r))" using assms(1,2) by simp
  have some: "(map_of (zip cs r) c = Some v) = ((c, v) \<in> set (zip cs r))" for c v
    using d by (rule map_of_eq_Some_iff)
  have dom: "\<exists>v. (k, v) \<in> set (zip cs r)" if "k \<in> set ks" for k
  proof -
    from that assms(3) have "k \<in> set (map fst (zip cs r))" using assms(2) by auto
    then show ?thesis by auto
  qed
  show ?thesis
  proof
    assume l: "list_all (\<lambda>(c, v). if c \<in> set ks then notna v else True) (zip cs r)"
    have "notna (series_get (zip cs r) k)" if "k \<in> set ks" for k
    proof -
      from dom [OF that] obtain v where v: "(k, v) \<in> set (zip cs r)" ..
      with l that have "notna v" by (auto simp: list_all_iff)
      moreover from v have "series_get (zip cs r) k = v"
        by (simp add: series_get_def some [symmetric])
      ultimately show ?thesis by simp
    qed
    then show "list_all (\<lambda>k. notna (series_get (zip cs r) k)) ks"
      by (simp add: list_all_iff)
  next
    assume l: "list_all (\<lambda>k. notna (series_get (zip cs r) k)) ks"
    have "notna v" if "(c, v) \<in> set (zip cs r)" "c \<in> set ks" for c v
    proof -
      from that(1) have "series_get (zip cs r) c = v"
        by (simp add: series_get_def some [symmetric])
      with l that(2) show ?thesis by (auto simp: list_all_iff)
    qed
    then show "list_all (\<lambda>(c, v). if c \<in> set ks then notna v else True) (zip cs r)"
      by (auto simp: list_all_iff)
  qed
qed

lemma dropna_wf:
  assumes "wf_frame df" and "set ks \<subseteq> set (columns df)"
  shows "dropna df ks =
    Inr (df\<lparr>rows := filter (\<lambda>r. list_all (\<lambda>k. notna (series_get (row_series df r) k)) ks)
                       (rows df)\<rparr>)"
proof -
  have "list_all (\<lambda>(c, v). if c \<in> set ks then notna v else True) (row_series df r)
      = list_all (\<lambda>k. notna (series_get (row_series df r) k)) ks" if "r \<in> set (rows df)" for r
    unfolding row_series_def
    using assms that by (intro dropna_test) (auto simp: wf_frame_def list_all_iff)
  then have "filter (\<lambda>r. list_all (\<lambda>(c, v). if c \<in> set ks then notna v else True)
                 (row_series df r)) (rows df)
      = filter (\<lambda>r. list_all (\<lambda>k. notna (series_get (row_series df r) k)) ks) (rows df)"
    by (intro filter_cong) auto
  moreover have "list_all (\<lambda>k. k \<in> set (columns df)) ks"
    using assms(2) by (auto simp: list_all_iff)
  ultimately show ?thesis by (simp add: dropna_def)
qed

text \<open>
  On a filtered table with pairwise different labels and the columns lat and lon, the
  rows for the map (both lat and lon non-null, line 73) and the rows for the
  missing-coordinates report (lat null or lon null, line 74) partition the table: the
  first are the rows that pass the test, the second the rows that fail it, in the
  table's order, so the two row counts add up to the table's row count.
\<close>

lemma map_and_report_partition:
  assumes "wf_frame filtered" and "''lat'' \<in> set (columns filtered)"
    and "''lon'' \<in> set (columns filtered)"
  shows "\<exists>v m. valid_coords filtered = Inr v \<and> missing_coords filtered = Inr m
    \<and> rows v = filter (\<lambda>r. notna (series_get (row_series filtered r) ''lat'')
                            \<and> notna (series_get (row_series filtered r) ''lon'')) (rows filtered)
    \<and> rows m = filter (\<lambda>r. \<not> (notna (series_get (row_series filtered r) ''lat'')
                            \<and> notna (series_get (row_series filtered r) ''lon''))) (rows filtered)
    \<and> length (rows v) + length (rows m) = length (rows filtered)"
proof -
  let ?valid = "\<lambda>r. notna (series_get (row_series filtered r) ''lat'')
                   \<and> notna (series_get (row_series filtered r) ''lon'')"
  have dis: "distinct (columns filtered)" using assms(1) by (simp add: wf_frame_def)
  have v: "valid_coords filtered = Inr (filtered\<lparr>rows := filter ?valid (rows filtered)\<rparr>)"
    using assms(2,3) dropna_wf [OF assms(1), of "[''lat'', ''lon'']"]
    by (simp add: valid_coords_def)
  have mk: "map2 (\<or>) (map isna (map f xs)) (map isna (map g xs))
      = map (\<lambda>r. \<not> (notna (f r) \<and> notna (g r))) xs" for f g :: "cell list \<Rightarrow> cell" and xs
    by (induction xs) (auto simp: isna_def notna_def)
  have m: "missing_coords filtered
      = Inr (filtered\<lparr>rows := filter (\<lambda>r. \<not> ?valid r) (rows filtered)\<rparr>)"
    unfolding missing_coords_def getcol_present [OF assms(2) dis] getcol_present [OF assms(3) dis]
      bindE_def sum.case mk bool_index_map ..
  have "length (filter ?valid (rows filtered)) + length (filter (\<lambda>r. \<not> ?valid r) (rows filtered))
      = length (rows filtered)"
    by (rule sum_length_filter_compl)
  with v m show ?thesis by simp
qed

text \<open>
  Claim C2 says that the rows for the map and the rows for the missing-coordinates report
  partition every filtered table. An upload that has its own lat and lon columns loads
  into a table with each of these labels twice (lines 54 and 55). Line 73 handles that
  table (it drops the rows with a null in any lat or lon column), line 74 does not:
  \<^verbatim>\<open>filtered["lat"]\<close> is a frame of two columns, \<^verbatim>\<open>|\<close> raises \<^verbatim>\<open>ValueError\<close>, and the run
  ends with neither the map nor the report.
\<close>

theorem own_coordinate_columns_raise:
  "load_data example_parser
     \<lparr>columns = [''Province'', ''SubmissionDate'', ''lat'', ''lon''],
      dtypes = [Other, Other, Other, Other],
      rows = [[Str ''Kabul'', Str ''2024-01-15'', Num 34, Num 69]]\<rparr>
     = ([], Inr \<lparr>columns = [''Province'', ''SubmissionDate'', ''lat'', ''lon'', ''lat'', ''lon''],
                 dtypes = [Other, Datetime64, Other, Other, Other, Other],
                 rows = [[Str ''Kabul'', Stamp 1705276800000000000, Num 34, Num 69, NA, NA]]\<rparr>)
   \<and> filtered_by
       \<lparr>columns = [''Province'', ''SubmissionDate'', ''lat'', ''lon'', ''lat'', ''lon''],
        dtypes = [Other, Datetime64, Other, Other, Other, Other],
        rows = [[Str ''Kabul'', Stamp 1705276800000000000, Num 34, Num 69, NA, NA]]\<rparr>
       (Str ''All Provinces'')
     = Inr \<lparr>columns = [''Province'', ''SubmissionDate'', ''lat'', ''lon'', ''lat'', ''lon''],
            dtypes = [Other, Datetime64, Other, Other, Other, Other],
            rows = [[Str ''Kabul'', Stamp 1705276800000000000, Num 34, Num 69, NA, NA]]\<rparr>
   \<and> missing_coords
       \<lparr>columns = [''Province'', ''SubmissionDate'', ''lat'', ''lon'', ''lat'', ''lon''],
        dtypes = [Other, Datetime64, Other, Other, Other, Other],
        rows = [[Str ''Kabul'', Stamp 1705276800000000000, Num 34, Num 69, NA, NA]]\<rparr>
     = Inl ValueError
   \<and> script example_parser
       (Some \<lparr>columns = [''Province'', ''SubmissionDate'', ''lat'', ''lon''],
              dtypes = [Other, Other, Other, Other],
              rows = [[Str ''Kabul'', Str ''2024-01-15'', Num 34, Num 69]]\<rparr>)
       (Str ''All Provinces'')
     = Inl ValueError"
proof -
  let ?raw = "\<lparr>columns = [''Province'', ''SubmissionDate'', ''lat'', ''lon''],
      dtypes = [Other, Other, Other, Other],
      rows = [[Str ''Kabul'', Str ''2024-01-15'', Num 34, Num 69]]\<rparr>"
  let ?out = "\<lparr>columns = [''Province'', ''SubmissionDate'', ''lat'', ''lon'', ''lat'', ''lon''],
      dtypes = [Other, Datetime64, Other, Other, Other, Other],
      rows = [[Str ''Kabul'', Stamp 1705276800000000000, Num 34, Num 69, NA, NA]]\<rparr>"
  have l: "load_data example_parser ?raw = ([], Inr ?out)"
    by (simp add: load_eval example_parser_def text_format_def text_reading_def)
  have o: "province_list ?out = Inr [Str ''All Provinces'', Str ''Kabul'']"
    by (simp add: province_list_def getcol_def bindE_def py_sorted_def row_series_def
        series_get_def notna_def)
  have f: "filtered_by ?out (Str ''All Provinces'') = Inr ?out"
    by (simp add: filtered_by_def)
  have v: "valid_coords ?out = Inr (?out\<lparr>rows := []\<rparr>)"
    by (simp add: valid_coords_def dropna_def row_series_def notna_def)
  have m: "missing_coords ?out = Inl ValueError"
    by (simp add: missing_coords_def getcol_def bindE_def)
  have "script example_parser (Some ?raw) (Str ''All Provinces'') = Inl ValueError"
    unfolding script_def option.case l prod.case sum.case o bindE_def
    by (simp add: df_empty_def selectbox_def f v m bindE_def)
  with l f m show ?thesis by simp
qed



section \<open>The frame of loading\<close>

lemma nth_dated:
  assumes "j < length (columns df)" and "columns df ! j \<noteq> ''SubmissionDate''"
  shows "dated parse df r ! j = r ! j"
proof (cases "''SubmissionDate'' \<in> set (columns df)")
  case True
  then have "index_of ''SubmissionDate'' (columns df) \<noteq> j"
    using assms(2) index_of_nth by blast
  then show ?thesis by (simp add: dated_def)
next
  case False
  have "k \<notin> set cs \<Longrightarrow> index_of k cs = length cs" for k cs
    by (induction cs) auto
  with False assms(1) show ?thesis by (simp add: dated_def)
qed

lemma nth_loaded_row:
  assumes "length r = length (columns df)"
    and "j < length (columns df)" and "columns df ! j \<noteq> ''SubmissionDate''"
  shows "loaded_row parse df r ! j = r ! j"
  using assms nth_dated [OF assms(2,3)]
  by (simp add: loaded_row_def Let_def nth_append length_dated)

lemma length_loaded_row: "length (loaded_row parse df r) = length r + 2"
  by (simp add: loaded_row_def Let_def length_dated)

text \<open>
  Claim C10. When a table with both required columns loads, the loaded table has the rows
  of the parsed table, one for one and in order; every cell outside the SubmissionDate
  column is the cell of the parsed table; and the columns are those of the parsed table
  followed by exactly two new ones, lat and lon.
\<close>

theorem loading_frame:
  assumes "wf_frame df" and "''Province'' \<in> set (columns df)"
    and "''SubmissionDate'' \<in> set (columns df)"
    and "load_data parse df = (msgs, Inr out)"
  shows "msgs = [] \<and> columns out = columns df @ [''lat'', ''lon'']
    \<and> length (rows out) = length (rows df)
    \<and> (\<forall>i < length (rows df). length (rows out ! i) = length (columns df) + 2
          \<and> (\<forall>j < length (columns df). columns df ! j \<noteq> ''SubmissionDate''
                \<longrightarrow> rows out ! i ! j = rows df ! i ! j))"
proof -
  have dis: "distinct (columns df)" using assms(1) by (simp add: wf_frame_def)
  from load_data_success [OF dis assms(2,3,4)]
  have m: "msgs = []" and out: "columns out = columns df @ [''lat'', ''lon'']"
    "rows out = map (loaded_row parse df) (rows df)" by simp_all
  have len: "length (rows df ! i) = length (columns df)" if "i < length (rows df)" for i
    using assms(1) that by (simp add: wf_frame_def list_all_length)
  show ?thesis
    using m by (simp add: out length_loaded_row len nth_loaded_row)
qed

theorem loading_frame_witness:
  "wf_frame \<lparr>columns = [''KEY'', ''Province'', ''SubmissionDate''],
             dtypes = [Other, Other, Other],
             rows = [[Num 7, Str ''A'', Stamp 5], [Num 8, NA, Str ''soon'']]\<rparr>
   \<and> load_data stamps_only \<lparr>columns = [''KEY'', ''Province'', ''SubmissionDate''],
             dtypes = [Other, Other, Other],
             rows = [[Num 7, Str ''A'', Stamp 5], [Num 8, NA, Str ''soon'']]\<rparr>
     = ([], Inr \<lparr>columns = [''KEY'', ''Province'', ''SubmissionDate'', ''lat'', ''lon''],
             dtypes = [Other, Other, Datetime64, Other, Other],
             rows = [[Num 7, Str ''A'', Stamp 5, NA, NA], [Num 8, NA, NA, NA, NA]]\<rparr>)
   \<and> length (rows \<lparr>columns = [''KEY'', ''Province'', ''SubmissionDate'', ''lat'', ''lon''],
             dtypes = [Other, Other, Datetime64, Other, Other],
             rows = [[Num 7, Str ''A'', Stamp 5, NA, NA], [Num 8, NA, NA, NA, NA]]\<rparr>) = 2"
proof -
  let ?df = "\<lparr>columns = [''KEY'', ''Province'', ''SubmissionDate''],
             dtypes = [Other, Other, Other],
             rows = [[Num 7, Str ''A'', Stamp 5], [Num 8, NA, Str ''soon'']]\<rparr>"
  let ?out = "\<lparr>columns = [''KEY'', ''Province'', ''SubmissionDate'', ''lat'', ''lon''],
             dtypes = [Other, Other, Datetime64, Other, Other],
             rows = [[Num 7, Str ''A'', Stamp 5, NA, NA], [Num 8, NA, NA, NA, NA]]\<rparr>"
  have w: "wf_frame ?df" by (simp add: wf_frame_def)
  have p: "''Province'' \<in> set (columns ?df)" and d: "''SubmissionDate'' \<in> set (columns ?df)"
    by simp_all
  have l: "load_data stamps_only ?df = ([], Inr ?out)"
    by (simp add: load_eval)
  from loading_frame [OF w p d l] w l show ?thesis by simp
qed

lemma loaded_date_cell:
  assumes "length r0 = length (columns df)" and "''SubmissionDate'' \<in> set (columns df)"
  shows "series_get (zip (columns df @ [''lat'', ''lon'']) (loaded_row parse df r0))
           ''SubmissionDate''
         = convert_ts parse df (series_get (zip (columns df) r0) ''SubmissionDate'')"
proof -
  have len: "length (dated parse df r0) = length (columns df)"
    using assms(1) by (simp add: length_dated)
  show ?thesis
    using series_get_loaded [OF len, of "''SubmissionDate''"]
      series_get_update_same [OF assms(2,1)]
    by (simp add: loaded_row_def Let_def dated_def row_series_def)
qed




section \<open>Required columns\<close>

lemma script_missing_column:
  assumes "''Province'' \<notin> set (columns df) \<or> ''SubmissionDate'' \<notin> set (columns df)"
  shows "script parse (Some df) pick =
    Inr (page_head @ [St_error (if ''Province'' \<notin> set (columns df)
        then ''The file must contain a 'Province' column.''
        else ''The file must contain a 'SubmissionDate' column.'')])"
  by (simp add: script_def load_data_missing [OF assms] DataFrame_def df_empty_def)

text \<open>
  What holds of the claim. A parsed table without the Province column or without the
  SubmissionDate column is reported with one \<^verbatim>\<open>st.error\<close> message, \<open>load_data\<close> returns
  the empty table and raises nothing, and the script stops with the page head (title and
  upload control) and that message as its only elements: no selector, chart, map or
  report. A parsed table with both columns, at least one row and timestamps read with at
  most one UTC offset loads without an error message into a non-empty table with the
  same number of rows.
\<close>

lemma missing_column_reported:
  "(''Province'' \<notin> set (columns df) \<or> ''SubmissionDate'' \<notin> set (columns df) \<longrightarrow>
      load_data parse df =
        ([St_error (if ''Province'' \<notin> set (columns df)
            then ''The file must contain a 'Province' column.''
            else ''The file must contain a 'SubmissionDate' column.'')], Inr DataFrame)
      \<and> df_empty DataFrame
      \<and> script parse (Some df) pick =
        Inr (page_head @ [St_error (if ''Province'' \<notin> set (columns df)
            then ''The file must contain a 'Province' column.''
            else ''The file must contain a 'SubmissionDate' column.'')]))
   \<and> (wf_frame df \<and> ''Province'' \<in> set (columns df) \<and> ''SubmissionDate'' \<in> set (columns df)
        \<and> rows df \<noteq> [] \<and> \<not> mixed_offsets parse (date_column df) \<longrightarrow>
      (\<exists>out. load_data parse df = ([], Inr out) \<and> \<not> df_empty out
          \<and> length (rows out) = length (rows df)))"
proof (intro conjI impI)
  assume a: "''Province'' \<notin> set (columns df) \<or> ''SubmissionDate'' \<notin> set (columns df)"
  show "load_data parse df =
        ([St_error (if ''Province'' \<notin> set (columns df)
            then ''The file must contain a 'Province' column.''
            else ''The file must contain a 'SubmissionDate' column.'')], Inr DataFrame)"
    by (rule load_data_missing [OF a])
  show "df_empty DataFrame" by (simp add: df_empty_def DataFrame_def)
  show "script parse (Some df) pick =
        Inr (page_head @ [St_error (if ''Province'' \<notin> set (columns df)
            then ''The file must contain a 'Province' column.''
            else ''The file must contain a 'SubmissionDate' column.'')])"
    by (rule script_missing_column [OF a])
next
  assume b: "wf_frame df \<and> ''Province'' \<in> set (columns df)
        \<and> ''SubmissionDate'' \<in> set (columns df)
        \<and> rows df \<noteq> [] \<and> \<not> mixed_offsets parse (date_column df)"
  then have "load_data parse df = ([], Inr (loaded parse df))"
    by (simp add: load_data_rows wf_frame_def)
  with b show "\<exists>out. load_data parse df = ([], Inr out) \<and> \<not> df_empty out
          \<and> length (rows out) = length (rows df)"
    by (simp add: df_empty_def loaded_def)
qed

text \<open>
  Claim C4 says that a table without a required column is reported and halts the page,
  and that the same data with the required columns present loads. The first half holds
  (lemma \<open>missing_column_reported\<close>). The second half fails on a header-only file: the
  table without the Province column is reported, and with the Province column added
  \<open>load_data\<close> raises \<^verbatim>\<open>ValueError\<close>, because \<^verbatim>\<open>apply\<close> on a frame without rows returns a
  copy of the frame, and giving its three columns the two labels lat and lon fails.
  Lines 61 and 62, which stop the page quietly on an empty table, are never reached.
\<close>

theorem header_only_table_raises:
  "load_data stamps_only
     \<lparr>columns = [''SubmissionDate'', ''KEY''], dtypes = [Other, Other], rows = []\<rparr>
     = ([St_error ''The file must contain a 'Province' column.''], Inr DataFrame)
   \<and> load_data stamps_only
     \<lparr>columns = [''Province'', ''SubmissionDate'', ''KEY''], dtypes = [Other, Other, Other],
      rows = []\<rparr>
     = ([], Inl ValueError)"
  by (simp add: load_data_missing load_data_no_rows)

section \<open>Categories and coordinate pairs\<close>

lemma count_distinct:
  "distinct xs \<Longrightarrow> x \<in> set xs \<Longrightarrow> length (filter (\<lambda>k. k = x) xs) = 1"
proof (induction xs)
  case Nil
  then show ?case by simp
next
  case (Cons a xs)
  then show ?case
    by (cases "a = x") (auto simp: filter_empty_conv)
qed

text \<open>
  Claim C5, as the code has it. Every row of a loaded table has exactly one cell under the
  one Province column, and at most one resolved coordinate pair: the derived pair is pair
  A with both fields non-null, or pair B with both fields non-null, or two nulls, never
  one field of each. The Province cell may be null.
\<close>

theorem one_category_one_pair:
  assumes "wf_frame df" and "load_data parse df = (msgs, Inr out)" and "r \<in> set (rows out)"
  shows "length (filter (\<lambda>k. k = ''Province'') (columns out)) = 1
    \<and> length r = length (columns out)
    \<and> (let row = row_series out r; n = length (columns df);
           a_lat = series_get row ''Geopoint1-Latitude'';
           a_lon = series_get row ''Geopoint1-Longitude'';
           b_lat = series_get row ''geopoint-Latitude'';
           b_lon = series_get row ''geopoint-Longitude''
       in (r ! n, r ! Suc n) = (a_lat, a_lon) \<and> notna a_lat \<and> notna a_lon
        \<or> (r ! n, r ! Suc n) = (b_lat, b_lon) \<and> notna b_lat \<and> notna b_lon
        \<or> (r ! n, r ! Suc n) = (NA, NA))"
proof -
  have p: "''Province'' \<in> set (columns df)"
    using load_data_row_cases [OF assms(2,3)] by simp
  have d: "distinct (columns df)" using assms(1) by (simp add: wf_frame_def)
  note lp = loaded_pair [OF assms]
  then have "columns out = columns df @ [''lat'', ''lon'']" by simp
  then have "length (filter (\<lambda>k. k = ''Province'') (columns out)) = 1"
    using count_distinct [OF d p] by simp
  moreover have "length r = length (columns out)" using lp by simp
  ultimately show ?thesis
    using lp unfolding Let_def by (auto split: if_splits)
qed

theorem one_category_one_pair_witness:
  "wf_frame \<lparr>columns = [''Province'', ''SubmissionDate'', ''geopoint-Latitude'',
        ''geopoint-Longitude''],
          dtypes = [Other, Other, Other, Other], rows = [[NA, NA, Num 5, Num 6]]\<rparr>
   \<and> load_data stamps_only \<lparr>columns = [''Province'', ''SubmissionDate'', ''geopoint-Latitude'',
        ''geopoint-Longitude''],
          dtypes = [Other, Other, Other, Other], rows = [[NA, NA, Num 5, Num 6]]\<rparr>
     = ([], Inr \<lparr>columns = [''Province'', ''SubmissionDate'', ''geopoint-Latitude'',
        ''geopoint-Longitude'', ''lat'', ''lon''],
          dtypes = [Other, Datetime64, Other, Other, Other, Other],
          rows = [[NA, NA, Num 5, Num 6, Num 5, Num 6]]\<rparr>)
   \<and> length (filter (\<lambda>k. k = ''Province'') [''Province'', ''SubmissionDate'',
        ''geopoint-Latitude'', ''geopoint-Longitude'', ''lat'', ''lon'']) = 1"
proof -
  let ?df = "\<lparr>columns = [''Province'', ''SubmissionDate'', ''geopoint-Latitude'',
        ''geopoint-Longitude''],
          dtypes = [Other, Other, Other, Other], rows = [[NA, NA, Num 5, Num 6]]\<rparr>"
  let ?r = "[NA, NA, Num 5, Num 6, Num 5, Num 6]"
  let ?out = "\<lparr>columns = [''Province'', ''SubmissionDate'', ''geopoint-Latitude'',
        ''geopoint-Longitude'', ''lat'', ''lon''],
          dtypes = [Other, Datetime64, Other, Other, Other, Other], rows = [?r]\<rparr>"
  have w: "wf_frame ?df" by (simp add: wf_frame_def)
  have l: "load_data stamps_only ?df = ([], Inr ?out)"
    by (simp add: load_eval)
  have m: "?r \<in> set (rows ?out)" by simp
  from one_category_one_pair [OF w l m] w l show ?thesis by simp
qed

text \<open>
  The claim as written also says the category is never null. Loading checks that the
  Province column exists, not what its cells hold: a row with a null Province loads.
\<close>

theorem null_category_loads:
  "load_data stamps_only \<lparr>columns = [''Province'', ''SubmissionDate''],
    dtypes = [Other, Datetime64], rows = [[NA, Stamp 5]]\<rparr>
     = ([], Inr \<lparr>columns = [''Province'', ''SubmissionDate'', ''lat'', ''lon''],
                 dtypes = [Other, Datetime64, Other, Other],
                 rows = [[NA, Stamp 5, NA, NA]]\<rparr>)
   \<and> getcol \<lparr>columns = [''Province'', ''SubmissionDate'', ''lat'', ''lon''],
                 dtypes = [Other, Datetime64, Other, Other],
                 rows = [[NA, Stamp 5, NA, NA]]\<rparr> ''Province'' = Inr [NA]"
  by (simp add: load_eval getcol_def)

section \<open>Submissions per day\<close>

lemma fst_bump: "fst ` set (bump d ps) = insert d (fst ` set ps)"
  by (induction d ps rule: bump.induct) auto

lemma sorted_bump:
  "sorted_wrt (<) (map fst ps) \<Longrightarrow> sorted_wrt (<) (map fst (bump d ps))"
proof (induction d ps rule: bump.induct)
  case (1 d)
  then show ?case by simp
next
  case (2 d e n ps)
  have "fst ` set (bump d ps) = insert d (fst ` set ps)" by (rule fst_bump)
  with 2 show ?case by (auto simp: image_iff) 
qed

lemma map_of_above:
  assumes "sorted_wrt (<) (e # map fst ps)" and "(d::int) \<le> e"
  shows "map_of ps d = None"
proof -
  have "d \<notin> fst ` set ps"
  proof
    assume "d \<in> fst ` set ps"
    then have "d \<in> set (map fst ps)" by simp
    with assms(1) have "e < d" by auto
    with assms(2) show False by simp
  qed
  then show ?thesis by (simp add: map_of_eq_None_iff)
qed

lemma map_of_bump:
  "sorted_wrt (<) (map fst ps) \<Longrightarrow>
     map_of (bump d ps) k =
       (if k = d then Some (case map_of ps d of None \<Rightarrow> 1 | Some n \<Rightarrow> Suc n)
        else map_of ps k)"
proof (induction d ps rule: bump.induct)
  case (1 d)
  then show ?case by simp
next
  case (2 d e n ps)
  then show ?case
    using map_of_above [of e ps d] by (auto split: option.splits)
qed

lemma fold_bump:
  "sorted_wrt (<) (map fst ps) \<Longrightarrow>
     sorted_wrt (<) (map fst (fold bump ds ps))
     \<and> map_of (fold bump ds ps) k =
         (case map_of ps k of
            None \<Rightarrow> if count_list ds k = 0 then None else Some (count_list ds k)
          | Some n \<Rightarrow> Some (n + count_list ds k))"
proof (induction ds arbitrary: ps)
  case Nil
  then show ?case by (simp split: option.splits)
next
  case (Cons d ds)
  from Cons.IH [OF sorted_bump [OF Cons.prems], of d] map_of_bump [OF Cons.prems, of d k]
  show ?case by (auto split: option.splits)
qed

lemma groupby_size_days:
  assumes "list_all is_Stamp stamps"
  shows "sorted_wrt (<) (map fst (groupby_size
            (map (\<lambda>c. (case c of Stamp t \<Rightarrow> Some (t div ns_per_day) | _ \<Rightarrow> None)) stamps)))"
    and "map_of (groupby_size
            (map (\<lambda>c. (case c of Stamp t \<Rightarrow> Some (t div ns_per_day) | _ \<Rightarrow> None)) stamps)) d =
         (let n = length (filter (\<lambda>c. the_Stamp c div ns_per_day = d) stamps)
          in if n = 0 then None else Some n)"
proof -
  let ?day = "\<lambda>c. (case c of Stamp t \<Rightarrow> Some (t div ns_per_day) | _ \<Rightarrow> None)"
  have days: "map the (filter (\<lambda>k. k \<noteq> None) (map ?day stamps))
      = map (\<lambda>c. the_Stamp c div ns_per_day) stamps"
    using assms by (induction stamps) (auto split: cell.splits)
  have cnt: "count_list (map f xs) d = length (filter (\<lambda>c. f c = d) xs)"
    for f :: "cell \<Rightarrow> int" and xs
    by (induction xs) auto
  have g: "groupby_size (map ?day stamps)
      = fold bump (map (\<lambda>c. the_Stamp c div ns_per_day) stamps) []"
    unfolding groupby_size_def days ..
  from fold_bump [of "[]" "map (\<lambda>c. the_Stamp c div ns_per_day) stamps" d]
  show "sorted_wrt (<) (map fst (groupby_size (map ?day stamps)))"
    and "map_of (groupby_size (map ?day stamps)) d =
         (let n = length (filter (\<lambda>c. the_Stamp c div ns_per_day = d) stamps)
          in if n = 0 then None else Some n)"
    unfolding g by (simp_all add: cnt Let_def)
qed

lemma timeline_chart:
  assumes "wf_frame filtered" and "''SubmissionDate'' \<in> set (columns filtered)"
    and "list_all (\<lambda>r. series_get (row_series filtered r) ''SubmissionDate'' = NA
                       \<or> is_Stamp (series_get (row_series filtered r) ''SubmissionDate''))
           (rows filtered)"
  shows "(list_ex (\<lambda>r. notna (series_get (row_series filtered r) ''SubmissionDate''))
            (rows filtered) \<longrightarrow>
          (\<exists>pts. timeline filtered = Inr [St_plotly_line pts]
             \<and> sorted_wrt (<) (map fst pts)
             \<and> (\<forall>d. map_of pts d =
                  (let n = length (filter
                       (\<lambda>r. (let c = series_get (row_series filtered r) ''SubmissionDate''
                              in is_Stamp c \<and> the_Stamp c div ns_per_day = d))
                       (rows filtered))
                   in if n = 0 then None else Some n))))
    \<and> (\<not> list_ex (\<lambda>r. notna (series_get (row_series filtered r) ''SubmissionDate''))
            (rows filtered) \<longrightarrow>
          timeline filtered = Inr [St_info ''No valid SubmissionDate values found.''])"
proof -
  let ?get = "\<lambda>r. series_get (row_series filtered r) ''SubmissionDate''"
  let ?day = "\<lambda>c. (case c of Stamp t \<Rightarrow> Some (t div ns_per_day) | _ \<Rightarrow> None)"
  let ?times = "filtered\<lparr>rows := filter (\<lambda>r. notna (?get r)) (rows filtered)\<rparr>"
  let ?stamps = "map ?get (filter (\<lambda>r. notna (?get r)) (rows filtered))"
  have dis: "distinct (columns filtered)" using assms(1) by (simp add: wf_frame_def)
  have col: "getcol filtered ''SubmissionDate'' = Inr (map ?get (rows filtered))"
    by (rule getcol_present [OF assms(2) dis])
  have ex: "list_ex notna (map ?get (rows filtered)) = list_ex (\<lambda>r. notna (?get r)) (rows filtered)"
    by (simp add: list_ex_iff)
  have times: "dropna filtered [''SubmissionDate''] = Inr ?times"
    using assms(2) dropna_wf [OF assms(1), of "[''SubmissionDate'']"] by simp
  have stamps: "getcol ?times ''SubmissionDate'' = Inr ?stamps"
    using getcol_present [of "''SubmissionDate''" ?times] assms(2) dis
    by (simp add: row_series_def)
  have all: "list_all is_Stamp ?stamps"
    using assms(3) by (auto simp: list_all_iff notna_def)
  then have dates: "dt_date ?stamps = Inr (map ?day ?stamps)"
    by (simp add: dt_date_def list_all_iff)
  have chart: "timeline filtered = Inr [St_plotly_line (groupby_size (map ?day ?stamps))]"
    if "list_ex (\<lambda>r. notna (?get r)) (rows filtered)"
    unfolding timeline_def col bindE_def sum.case ex times stamps dates using that by simp
  have info: "timeline filtered = Inr [St_info ''No valid SubmissionDate values found.'']"
    if "\<not> list_ex (\<lambda>r. notna (?get r)) (rows filtered)"
    unfolding timeline_def col bindE_def sum.case ex using that by simp
  have cnt: "length (filter (\<lambda>c. the_Stamp c div ns_per_day = d) ?stamps)
      = length (filter (\<lambda>r. is_Stamp (?get r) \<and> the_Stamp (?get r) div ns_per_day = d)
          (rows filtered))" for d
  proof -
    have "(notna (?get r) \<and> the_Stamp (?get r) div ns_per_day = d)
        = (is_Stamp (?get r) \<and> the_Stamp (?get r) div ns_per_day = d)"
      if "r \<in> set (rows filtered)" for r
      using assms(3) that by (auto simp: list_all_iff notna_def)
    then have "filter (\<lambda>r. notna (?get r) \<and> the_Stamp (?get r) div ns_per_day = d) (rows filtered)
        = filter (\<lambda>r. is_Stamp (?get r) \<and> the_Stamp (?get r) div ns_per_day = d) (rows filtered)"
      by (intro filter_cong) auto
    then show ?thesis by (simp add: filter_map o_def conj_commute)
  qed
  have pts: "map_of (groupby_size (map ?day ?stamps)) d =
      (if length (filter (\<lambda>r. is_Stamp (?get r) \<and> the_Stamp (?get r) div ns_per_day = d)
            (rows filtered)) = 0 then None
       else Some (length (filter (\<lambda>r. is_Stamp (?get r) \<and> the_Stamp (?get r) div ns_per_day = d)
            (rows filtered))))" for d
    using groupby_size_days(2) [OF all, of d] unfolding Let_def cnt .
  show ?thesis
    unfolding Let_def using chart info groupby_size_days(1) [OF all] pts by blast
qed

text \<open>
  Claim C6. For a filtered table whose SubmissionDate column is a datetime column (every
  cell a timestamp or null, as loading leaves it): when some timestamp is non-null the
  timeline is one line chart whose points are (day, count) pairs in strictly ascending
  order of the day, with one point for each calendar day on which a row with a non-null
  timestamp falls, its count the number of those rows; rows with a null timestamp count
  nowhere. When every timestamp is null the timeline is the message that no valid
  SubmissionDate was found.
\<close>

theorem timeline_counts_per_day:
  assumes "wf_frame filtered" and "''SubmissionDate'' \<in> set (columns filtered)"
    and "list_all (\<lambda>r. series_get (row_series filtered r) ''SubmissionDate'' = NA
                       \<or> is_Stamp (series_get (row_series filtered r) ''SubmissionDate''))
           (rows filtered)"
  shows "(list_ex (\<lambda>r. notna (series_get (row_series filtered r) ''SubmissionDate''))
            (rows filtered) \<longrightarrow>
          (\<exists>pts. timeline filtered = Inr [St_plotly_line pts]
             \<and> sorted_wrt (<) (map fst pts)
             \<and> (\<forall>d. map_of pts d =
                  (let n = length (filter
                       (\<lambda>r. (let c = series_get (row_series filtered r) ''SubmissionDate''
                              in is_Stamp c \<and> the_Stamp c div ns_per_day = d))
                       (rows filtered))
                   in if n = 0 then None else Some n))))
    \<and> (\<not> list_ex (\<lambda>r. notna (series_get (row_series filtered r) ''SubmissionDate''))
            (rows filtered) \<longrightarrow>
          timeline filtered = Inr [St_info ''No valid SubmissionDate values found.''])"
  using assms by (rule timeline_chart)

theorem timeline_counts_per_day_witness:
  "wf_frame \<lparr>columns = [''Province'', ''SubmissionDate''], dtypes = [Other, Datetime64],
       rows = [[Str ''A'', Stamp 5], [Str ''B'', NA], [Str ''A'', Stamp (- 1)], [NA, Stamp 0]]\<rparr>
   \<and> (\<exists>pts. timeline \<lparr>columns = [''Province'', ''SubmissionDate''],
       dtypes = [Other, Datetime64],
       rows = [[Str ''A'', Stamp 5], [Str ''B'', NA], [Str ''A'', Stamp (- 1)], [NA, Stamp 0]]\<rparr>
         = Inr [St_plotly_line pts]
       \<and> sorted_wrt (<) (map fst pts)
       \<and> map_of pts (- 1) = Some 1 \<and> map_of pts 0 = Some 2 \<and> map_of pts 1 = None)
   \<and> timeline \<lparr>columns = [''Province'', ''SubmissionDate''],
     dtypes = [Other, Other], rows = [[Str ''B'', NA]]\<rparr>
         = Inr [St_info ''No valid SubmissionDate values found.'']"
proof -
  let ?f = "\<lparr>columns = [''Province'', ''SubmissionDate''], dtypes = [Other, Datetime64],
       rows = [[Str ''A'', Stamp 5], [Str ''B'', NA], [Str ''A'', Stamp (- 1)], [NA, Stamp 0]]\<rparr>"
  let ?g = "\<lparr>columns = [''Province'', ''SubmissionDate''],
    dtypes = [Other, Other], rows = [[Str ''B'', NA]]\<rparr>"
  have w: "wf_frame ?f" "wf_frame ?g" by (simp_all add: wf_frame_def)
  have s: "''SubmissionDate'' \<in> set (columns ?f)" "''SubmissionDate'' \<in> set (columns ?g)"
    by simp_all
  have a: "list_all (\<lambda>r. series_get (row_series ?f r) ''SubmissionDate'' = NA
                       \<or> is_Stamp (series_get (row_series ?f r) ''SubmissionDate'')) (rows ?f)"
    "list_all (\<lambda>r. series_get (row_series ?g r) ''SubmissionDate'' = NA
                       \<or> is_Stamp (series_get (row_series ?g r) ''SubmissionDate'')) (rows ?g)"
    by (simp_all add: row_series_def series_get_def)
  have e: "list_ex (\<lambda>r. notna (series_get (row_series ?f r) ''SubmissionDate'')) (rows ?f)"
    "\<not> list_ex (\<lambda>r. notna (series_get (row_series ?g r) ''SubmissionDate'')) (rows ?g)"
    by (simp_all add: row_series_def series_get_def notna_def)
  from timeline_counts_per_day [OF w(1) s(1) a(1)] e(1)
  obtain pts where t: "timeline ?f = Inr [St_plotly_line pts]"
    and o: "sorted_wrt (<) (map fst pts)"
    and m: "\<And>d. map_of pts d =
        (let n = length (filter
             (\<lambda>r. (let c = series_get (row_series ?f r) ''SubmissionDate''
                    in is_Stamp c \<and> the_Stamp c div ns_per_day = d)) (rows ?f))
         in if n = 0 then None else Some n)"
    by blast
  have "map_of pts (- 1) = Some 1" "map_of pts 0 = Some 2" "map_of pts 1 = None"
    unfolding m by (simp_all add: row_series_def series_get_def ns_per_day_def)
  moreover have "timeline ?g = Inr [St_info ''No valid SubmissionDate values found.'']"
    using timeline_counts_per_day [OF w(2) s(2) a(2)] e(2) by blast
  ultimately show ?thesis using w(1) t o by blast
qed

section \<open>The map\<close>

lemma mean_numbers:
  assumes "list_all is_Num xs" and "xs \<noteq> []"
  shows "mean dt xs = Inr (Num (sum_list (map the_Num xs) / real (length xs)))"
proof -
  have "filter notna xs = xs"
    using assms(1) by (auto simp: list_all_iff notna_def intro!: filter_True)
  then show ?thesis using assms by (simp add: mean_def)
qed

lemma map_chart:
  assumes "''lat'' \<in> set (columns valid)" and "''lon'' \<in> set (columns valid)"
    and "distinct (columns valid)" and "\<not> df_empty valid"
    and "list_all (\<lambda>r. is_Num (series_get (row_series valid r) ''lat'')
                     \<and> is_Num (series_get (row_series valid r) ''lon'')) (rows valid)"
  shows "map_of_submissions valid =
    Inr [St_pydeck_chart \<lparr>layer_data = valid,
       latitude = Num (sum_list (map (\<lambda>r. the_Num (series_get (row_series valid r) ''lat''))
                         (rows valid)) / real (length (rows valid))),
       longitude = Num (sum_list (map (\<lambda>r. the_Num (series_get (row_series valid r) ''lon''))
                         (rows valid)) / real (length (rows valid))),
       zoom = 6, pitch = 0\<rparr>]"
proof -
  let ?lats = "map (\<lambda>r. series_get (row_series valid r) ''lat'') (rows valid)"
  let ?lons = "map (\<lambda>r. series_get (row_series valid r) ''lon'') (rows valid)"
  have ne: "?lats \<noteq> []" "?lons \<noteq> []" using assms(4) by (simp_all add: df_empty_def)
  have nums: "list_all is_Num ?lats" "list_all is_Num ?lons"
    using assms(5) by (simp_all add: list_all_iff)
  have m: "mean dt ?lats = Inr (Num (sum_list (map the_Num ?lats) / real (length ?lats)))"
    "mean dt ?lons = Inr (Num (sum_list (map the_Num ?lons) / real (length ?lons)))" for dt
    by (rule mean_numbers [OF nums(1) ne(1)], rule mean_numbers [OF nums(2) ne(2)])
  show ?thesis
    unfolding map_of_submissions_def getcol_present [OF assms(1,3)]
      getcol_present [OF assms(2,3)] bindE_def sum.case m
    using assms(4) by (simp add: o_def)
qed

text \<open>
  Claim C9, as the code has it. For a non-empty table of rows whose derived coordinates
  are numbers, the map is one \<^verbatim>\<open>pydeck\<close> chart whose layer holds exactly the rows of the
  table (a point per row), whose view is centred at the arithmetic mean of the plotted
  latitudes and the arithmetic mean of the plotted longitudes, and whose zoom is the
  constant 6. For an empty table it is the message that no valid GPS coordinates were
  found. Reals stand for the floats.
\<close>

theorem map_centred_on_mean:
  "(df_empty valid \<longrightarrow>
      map_of_submissions valid =
        Inr [St_info ''No valid GPS coordinates found for the selected province.''])
   \<and> (wf_frame valid \<and> ''lat'' \<in> set (columns valid) \<and> ''lon'' \<in> set (columns valid)
        \<and> \<not> df_empty valid
        \<and> list_all (\<lambda>r. is_Num (series_get (row_series valid r) ''lat'')
                        \<and> is_Num (series_get (row_series valid r) ''lon'')) (rows valid) \<longrightarrow>
      map_of_submissions valid =
        Inr [St_pydeck_chart \<lparr>layer_data = valid,
           latitude = Num (sum_list (map (\<lambda>r. the_Num (series_get (row_series valid r) ''lat''))
                             (rows valid)) / real (length (rows valid))),
           longitude = Num (sum_list (map (\<lambda>r. the_Num (series_get (row_series valid r) ''lon''))
                             (rows valid)) / real (length (rows valid))),
           zoom = 6, pitch = 0\<rparr>])"
  using map_chart [of valid] by (simp add: map_of_submissions_def wf_frame_def)

theorem map_centred_on_mean_witness:
  "map_of_submissions \<lparr>columns = [''Province'', ''lat'', ''lon''],
    dtypes = [Other, Other, Other], rows = []\<rparr>
     = Inr [St_info ''No valid GPS coordinates found for the selected province.'']
   \<and> map_of_submissions \<lparr>columns = [''Province'', ''lat'', ''lon''],
        dtypes = [Other, Other, Other],
        rows = [[Str ''A'', Num 34, Num 69], [Str ''A'', Num 35, Num 62]]\<rparr>
     = Inr [St_pydeck_chart \<lparr>layer_data = \<lparr>columns = [''Province'', ''lat'', ''lon''],
                dtypes = [Other, Other, Other],
                rows = [[Str ''A'', Num 34, Num 69], [Str ''A'', Num 35, Num 62]]\<rparr>,
              latitude = Num (69 / 2), longitude = Num (131 / 2), zoom = 6, pitch = 0\<rparr>]"
  using map_centred_on_mean [of "\<lparr>columns = [''Province'', ''lat'', ''lon''],
    dtypes = [Other, Other, Other], rows = []\<rparr>"]
    map_centred_on_mean [of "\<lparr>columns = [''Province'', ''lat'', ''lon''],
        dtypes = [Other, Other, Other],
        rows = [[Str ''A'', Num 34, Num 69], [Str ''A'', Num 35, Num 62]]\<rparr>"]
  by (simp add: df_empty_def wf_frame_def row_series_def series_get_def)

text \<open>
  The claim as written covers every non-empty set of rows with non-null coordinates.
  Coordinates are copied from the upload unchecked, so they can be texts; such a row has
  non-null coordinates (line 73 keeps it) and the mean of its column raises \<^verbatim>\<open>TypeError\<close>.
\<close>

theorem text_coordinate_raises:
  "valid_coords \<lparr>columns = [''Province'', ''lat'', ''lon''], dtypes = [Other, Other, Other],
        rows = [[Str ''Kabul'', Str ''34.5N'', Num 69]]\<rparr>
     = Inr \<lparr>columns = [''Province'', ''lat'', ''lon''], dtypes = [Other, Other, Other],
        rows = [[Str ''Kabul'', Str ''34.5N'', Num 69]]\<rparr>
   \<and> map_of_submissions \<lparr>columns = [''Province'', ''lat'', ''lon''],
        dtypes = [Other, Other, Other],
        rows = [[Str ''Kabul'', Str ''34.5N'', Num 69]]\<rparr> = Inl TypeError"
  by (simp add: valid_coords_def dropna_def map_of_submissions_def df_empty_def getcol_def
      bindE_def mean_def row_series_def series_get_def notna_def)

section \<open>Running the whole script\<close>

lemma series_get_derived:
  assumes "length r = length cs" and "''lat'' \<notin> set cs" and "''lon'' \<notin> set cs"
  shows "series_get (zip (cs @ [''lat'', ''lon'']) (r @ [a, b])) ''lat'' = a"
    and "series_get (zip (cs @ [''lat'', ''lon'']) (r @ [a, b])) ''lon'' = b"
proof -
  have z: "zip (cs @ [''lat'', ''lon'']) (r @ [a, b]) = zip cs r @ [(''lat'', a), (''lon'', b)]"
    using assms(1) by simp
  have "map_of (zip cs r) ''lat'' = None" "map_of (zip cs r) ''lon'' = None"
    using assms by (simp_all add: map_of_zip_is_None)
  then show "series_get (zip (cs @ [''lat'', ''lon'']) (r @ [a, b])) ''lat'' = a"
    and "series_get (zip (cs @ [''lat'', ''lon'']) (r @ [a, b])) ''lon'' = b"
    unfolding z series_get_append by (simp_all add: series_get_def)
qed

lemma loaded_cells:
  assumes "length r0 = length (columns df)"
  shows "k \<noteq> ''lat'' \<Longrightarrow> k \<noteq> ''lon'' \<Longrightarrow> k \<noteq> ''SubmissionDate'' \<Longrightarrow>
      series_get (zip (columns df @ [''lat'', ''lon'']) (loaded_row parse df r0)) k
        = series_get (zip (columns df) r0) k"
    and "''lat'' \<notin> set (columns df) \<Longrightarrow> ''lon'' \<notin> set (columns df) \<Longrightarrow>
      series_get (zip (columns df @ [''lat'', ''lon'']) (loaded_row parse df r0)) ''lat''
        = fst (resolved (zip (columns df) (dated parse df r0)))"
    and "''lat'' \<notin> set (columns df) \<Longrightarrow> ''lon'' \<notin> set (columns df) \<Longrightarrow>
      series_get (zip (columns df @ [''lat'', ''lon'']) (loaded_row parse df r0)) ''lon''
        = snd (resolved (zip (columns df) (dated parse df r0)))"
proof -
  have len: "length (dated parse df r0) = length (columns df)"
    using assms by (simp add: length_dated)
  show "series_get (zip (columns df @ [''lat'', ''lon'']) (loaded_row parse df r0)) k
        = series_get (zip (columns df) r0) k"
    if "k \<noteq> ''lat''" "k \<noteq> ''lon''" "k \<noteq> ''SubmissionDate''"
    using series_get_loaded [OF len that(1,2)] series_get_update_other [OF that(3)]
    by (simp add: loaded_row_def Let_def dated_def)
  show "series_get (zip (columns df @ [''lat'', ''lon'']) (loaded_row parse df r0)) ''lat''
        = fst (resolved (zip (columns df) (dated parse df r0)))"
    if "''lat'' \<notin> set (columns df)" "''lon'' \<notin> set (columns df)"
    using series_get_derived(1) [OF len that] by (simp add: loaded_row_def Let_def)
  show "series_get (zip (columns df @ [''lat'', ''lon'']) (loaded_row parse df r0)) ''lon''
        = snd (resolved (zip (columns df) (dated parse df r0)))"
    if "''lat'' \<notin> set (columns df)" "''lon'' \<notin> set (columns df)"
    using series_get_derived(2) [OF len that] by (simp add: loaded_row_def Let_def)
qed

lemma convert_ts_cases: "convert_ts parse df c = NA \<or> is_Stamp (convert_ts parse df c)"
  by (simp add: convert_ts_def stamp_of_def split: option.splits)

lemma resolved_dated:
  "resolved (zip (columns df) (dated parse df r0)) = resolved (row_series df r0)"
  by (simp add: resolved_def dated_def row_series_def series_get_update_other)

lemma index_of_append:
  "k \<notin> set cs \<Longrightarrow> index_of k (cs @ ds) = length cs + index_of k ds"
  by (induction cs) auto

lemma dtype_of_loaded:
  assumes "''lat'' \<notin> set (columns df)" and "''lon'' \<notin> set (columns df)"
    and "length (dtypes df) = length (columns df)"
  shows "dtype_of (loaded parse df\<lparr>rows := rs\<rparr>) ''lat''
      = infer_dtype (map (\<lambda>r. fst (resolved (row_series df r))) (rows df))"
    and "dtype_of (loaded parse df\<lparr>rows := rs\<rparr>) ''lon''
      = infer_dtype (map (\<lambda>r. snd (resolved (row_series df r))) (rows df))"
  using assms
  by (simp_all add: dtype_of_def loaded_def index_of_append resolved_dated nth_append)

lemma py_sorted_one_kind:
  "list_all is_Str xs \<or> list_all is_Num xs \<or> list_all is_Stamp xs \<Longrightarrow>
     \<exists>ys. py_sorted xs = Inr ys"
  by (auto simp: py_sorted_def)

lemma filtered_by_rows:
  assumes "''Province'' \<in> set (columns df)" and "distinct (columns df)"
  shows "\<exists>rs. filtered_by df selected = Inr (df\<lparr>rows := rs\<rparr>) \<and> set rs \<subseteq> set (rows df)"
proof (cases "selected = Str ''All Provinces''")
  case True
  then have "filtered_by df selected = Inr (df\<lparr>rows := rows df\<rparr>)"
    by (simp add: filtered_by_def)
  then show ?thesis by blast
next
  case False
  let ?p = "\<lambda>r. cell_eq (series_get (row_series df r) ''Province'') selected"
  have "filtered_by df selected = Inr (df\<lparr>rows := filter ?p (rows df)\<rparr>)"
    using False
    by (simp add: filtered_by_def getcol_present [OF assms] bindE_def
        bool_index_map [of df ?p, symmetric] o_def)
  moreover have "set (filter ?p (rows df)) \<subseteq> set (rows df)" by simp
  ultimately show ?thesis by blast
qed

lemma timeline_returns:
  assumes "wf_frame filtered" and "''SubmissionDate'' \<in> set (columns filtered)"
    and "list_all (\<lambda>r. series_get (row_series filtered r) ''SubmissionDate'' = NA
                       \<or> is_Stamp (series_get (row_series filtered r) ''SubmissionDate''))
           (rows filtered)"
  shows "\<exists>chart. timeline filtered = Inr chart
    \<and> ((\<exists>pts. chart = [St_plotly_line pts])
        \<or> chart = [St_info ''No valid SubmissionDate values found.''])"
  using timeline_chart [OF assms]
  by (cases "list_ex (\<lambda>r. notna (series_get (row_series filtered r) ''SubmissionDate''))
            (rows filtered)") auto

lemma mean_returns:
  assumes "list_all is_Num xs \<or> (dt = Datetime64 \<and> list_all is_Stamp xs)"
  shows "\<exists>c. mean dt xs = Inr c"
proof -
  have "list_all is_Num (filter notna xs)" if "list_all is_Num xs"
    using that by (simp add: list_all_iff)
  moreover have "list_all is_Stamp (filter notna xs)" if "list_all is_Stamp xs"
    using that by (simp add: list_all_iff)
  ultimately show ?thesis using assms by (auto simp: mean_def Let_def)
qed

lemma map_returns:
  assumes "''lat'' \<in> set (columns valid)" and "''lon'' \<in> set (columns valid)"
    and "distinct (columns valid)"
    and "list_all (\<lambda>r. is_Num (series_get (row_series valid r) ''lat'')) (rows valid)
       \<or> (dtype_of valid ''lat'' = Datetime64
           \<and> list_all (\<lambda>r. is_Stamp (series_get (row_series valid r) ''lat'')) (rows valid))"
    and "list_all (\<lambda>r. is_Num (series_get (row_series valid r) ''lon'')) (rows valid)
       \<or> (dtype_of valid ''lon'' = Datetime64
           \<and> list_all (\<lambda>r. is_Stamp (series_get (row_series valid r) ''lon'')) (rows valid))"
  shows "\<exists>deck_map. map_of_submissions valid = Inr deck_map
    \<and> ((\<exists>dk. deck_map = [St_pydeck_chart dk])
        \<or> deck_map = [St_info ''No valid GPS coordinates found for the selected province.''])"
proof (cases "df_empty valid")
  case True
  then show ?thesis by (simp add: map_of_submissions_def)
next
  case False
  let ?lats = "map (\<lambda>r. series_get (row_series valid r) ''lat'') (rows valid)"
  let ?lons = "map (\<lambda>r. series_get (row_series valid r) ''lon'') (rows valid)"
  have "list_all is_Num ?lats \<or> (dtype_of valid ''lat'' = Datetime64 \<and> list_all is_Stamp ?lats)"
    using assms(4) by (simp add: list_all_iff)
  from mean_returns [OF this] obtain a where a: "mean (dtype_of valid ''lat'') ?lats = Inr a" ..
  have "list_all is_Num ?lons \<or> (dtype_of valid ''lon'' = Datetime64 \<and> list_all is_Stamp ?lons)"
    using assms(5) by (simp add: list_all_iff)
  from mean_returns [OF this] obtain b where b: "mean (dtype_of valid ''lon'') ?lons = Inr b" ..
  show ?thesis
    unfolding map_of_submissions_def getcol_present [OF assms(1,3)]
      getcol_present [OF assms(2,3)] bindE_def sum.case a b
    using False by simp
qed

text \<open>
  Claim C8, as the code has it. Take an uploaded table with the required columns, one
  dtype per column and pairwise different labels none of which is lat or lon; with at
  least one row, or with no column besides the two required ones; whose timestamps are
  read with at most one UTC offset; whose non-null Province cells are of one kind (texts,
  numbers or timestamps); and whose resolved latitudes are numbers or null in every row,
  or timestamps in every row, and likewise its resolved longitudes (so with or without
  either coordinate pair). The run raises nothing. Without rows it stops after the page
  head. With rows the page is the head, the selector, the timeline (one line chart, or
  the message that no valid SubmissionDate was found), the map (one map, or the message
  that no valid GPS coordinates were found) and the report of the rows without
  coordinates, each computed from the loaded and filtered table.
\<close>

theorem script_completes:
  assumes w: "wf_frame raw" and dt: "length (dtypes raw) = length (columns raw)"
    and p: "''Province'' \<in> set (columns raw)" and d: "''SubmissionDate'' \<in> set (columns raw)"
    and la: "''lat'' \<notin> set (columns raw)" and lo: "''lon'' \<notin> set (columns raw)"
    and n: "rows raw \<noteq> [] \<or> length (columns raw) = 2"
    and off: "\<not> mixed_offsets parse
                 (map (\<lambda>r. series_get (row_series raw r) ''SubmissionDate'') (rows raw))"
    and cat: "list_all (\<lambda>r. series_get (row_series raw r) ''Province'' = NA
                         \<or> is_Str (series_get (row_series raw r) ''Province'')) (rows raw)
            \<or> list_all (\<lambda>r. series_get (row_series raw r) ''Province'' = NA
                         \<or> is_Num (series_get (row_series raw r) ''Province'')) (rows raw)
            \<or> list_all (\<lambda>r. series_get (row_series raw r) ''Province'' = NA
                         \<or> is_Stamp (series_get (row_series raw r) ''Province'')) (rows raw)"
    and lat: "list_all (\<lambda>r. fst (projr (pick_coordinates (row_series raw r))) = NA
                         \<or> is_Num (fst (projr (pick_coordinates (row_series raw r)))))
                (rows raw)
            \<or> list_all (\<lambda>r. is_Stamp (fst (projr (pick_coordinates (row_series raw r)))))
                (rows raw)"
    and lon: "list_all (\<lambda>r. snd (projr (pick_coordinates (row_series raw r))) = NA
                         \<or> is_Num (snd (projr (pick_coordinates (row_series raw r)))))
                (rows raw)
            \<or> list_all (\<lambda>r. is_Stamp (snd (projr (pick_coordinates (row_series raw r)))))
                (rows raw)"
  shows "(rows raw = [] \<longrightarrow> script parse (Some raw) pick = Inr page_head)
    \<and> (rows raw \<noteq> [] \<longrightarrow>
        (\<exists>df options filtered valid missing chart deck_map.
           load_data parse raw = ([], Inr df)
         \<and> province_list df = Inr options
         \<and> filtered_by df (selectbox options pick) = Inr filtered
         \<and> valid_coords filtered = Inr valid
         \<and> missing_coords filtered = Inr missing
         \<and> timeline filtered = Inr chart
         \<and> ((\<exists>pts. chart = [St_plotly_line pts])
             \<or> chart = [St_info ''No valid SubmissionDate values found.''])
         \<and> map_of_submissions valid = Inr deck_map
         \<and> ((\<exists>dk. deck_map = [St_pydeck_chart dk])
             \<or> deck_map = [St_info ''No valid GPS coordinates found for the selected province.''])
         \<and> script parse (Some raw) pick =
             Inr (page_head @ [St_selectbox ''Select Province'' options]
                  @ [St_header ''Submissions Over Time''] @ chart
                  @ [St_markdown ''---'', St_header ''Map of Submissions''] @ deck_map
                  @ [St_header ''Records with No GPS Points''] @ missing_report missing)))"
proof (intro conjI impI)
  assume e: "rows raw = []"
  have dis: "distinct (columns raw)" using w by (simp add: wf_frame_def)
  from e n have "length (columns raw) = 2" by simp
  with load_data_no_rows [OF dis p d e, of parse] show "script parse (Some raw) pick = Inr page_head"
    by (simp add: script_def df_empty_def)
next
  assume ne0: "rows raw \<noteq> []"
  let ?cols = "columns raw @ [''lat'', ''lon'']"
  let ?out = "loaded parse raw"
  let ?lat = "\<lambda>r0. fst (resolved (row_series raw r0))"
  let ?lon = "\<lambda>r0. snd (resolved (row_series raw r0))"
  have dis: "distinct (columns raw)" using w by (simp add: wf_frame_def)
  have nm: "\<not> mixed_offsets parse (date_column raw)"
    using off by (simp add: date_column_def)
  have ld: "load_data parse raw = ([], Inr ?out)"
    by (rule load_data_rows [OF dis p d ne0 nm])
  have co: "columns ?out = ?cols" and ro: "rows ?out = map (loaded_row parse raw) (rows raw)"
    by (simp_all add: loaded_def)
  have ne: "\<not> df_empty ?out" using ne0 by (simp add: df_empty_def loaded_def)
  have diso: "distinct (columns ?out)" using dis la lo by (simp add: co)
  have len: "length r0 = length (columns raw)" if "r0 \<in> set (rows raw)" for r0
    using w that by (simp add: wf_frame_def list_all_iff)
  have lat': "(\<forall>r0 \<in> set (rows raw). ?lat r0 = NA \<or> is_Num (?lat r0))
      \<or> (\<forall>r0 \<in> set (rows raw). is_Stamp (?lat r0))"
    using lat by (simp add: list_all_iff pick_coordinates_resolved)
  have lon': "(\<forall>r0 \<in> set (rows raw). ?lon r0 = NA \<or> is_Num (?lon r0))
      \<or> (\<forall>r0 \<in> set (rows raw). is_Stamp (?lon r0))"
    using lon by (simp add: list_all_iff pick_coordinates_resolved)
  have c1: "\<exists>r0 \<in> set (rows raw). series_get (zip ?cols r) ''Province''
      = series_get (row_series raw r0) ''Province''"
    if "r \<in> set (rows ?out)" for r
  proof -
    from that obtain r0 where r0: "r0 \<in> set (rows raw)" "r = loaded_row parse raw r0"
      by (auto simp: ro)
    have "series_get (zip ?cols r) ''Province'' = series_get (zip (columns raw) r0) ''Province''"
      unfolding r0(2) by (rule loaded_cells(1) [OF len [OF r0(1)]]) simp_all
    then show ?thesis using r0(1) by (auto simp: row_series_def)
  qed
  have c2: "series_get (zip ?cols r) ''SubmissionDate'' = NA
      \<or> is_Stamp (series_get (zip ?cols r) ''SubmissionDate'')"
    if "r \<in> set (rows ?out)" for r
  proof -
    from that obtain r0 where r0: "r0 \<in> set (rows raw)" "r = loaded_row parse raw r0"
      by (auto simp: ro)
    show ?thesis
      unfolding r0(2) loaded_date_cell [OF len [OF r0(1)] d] by (rule convert_ts_cases)
  qed
  have c3: "\<exists>r0 \<in> set (rows raw). series_get (zip ?cols r) ''lat'' = ?lat r0
      \<and> series_get (zip ?cols r) ''lon'' = ?lon r0"
    if "r \<in> set (rows ?out)" for r
  proof -
    from that obtain r0 where r0: "r0 \<in> set (rows raw)" "r = loaded_row parse raw r0"
      by (auto simp: ro)
    have "series_get (zip ?cols r) ''lat'' = ?lat r0"
      and "series_get (zip ?cols r) ''lon'' = ?lon r0"
      unfolding r0(2) loaded_cells(2) [OF len [OF r0(1)] la lo]
        loaded_cells(3) [OF len [OF r0(1)] la lo] resolved_dated by (rule refl)+
    with r0(1) show ?thesis by blast
  qed
  have pc: "''Province'' \<in> set (columns ?out)" and dc: "''SubmissionDate'' \<in> set (columns ?out)"
    and lac: "''lat'' \<in> set (columns ?out)" and loc: "''lon'' \<in> set (columns ?out)"
    using p d by (simp_all add: co)
  let ?names = "remdups (filter notna
       (map (\<lambda>r. series_get (row_series ?out r) ''Province'') (rows ?out)))"
  have kind: "list_all is_Str ?names \<or> list_all is_Num ?names \<or> list_all is_Stamp ?names"
  proof -
    have src: "\<exists>r0 \<in> set (rows raw). c = series_get (row_series raw r0) ''Province'' \<and> c \<noteq> NA"
      if "c \<in> set ?names" for c
    proof -
      from that obtain r where r: "r \<in> set (rows ?out)"
        "c = series_get (zip ?cols r) ''Province''" "c \<noteq> NA"
        by (auto simp: notna_def row_series_def co)
      from c1 [OF r(1)] r(2,3) show ?thesis by auto
    qed
    have "is_Str c" if "c \<in> set ?names"
      and "list_all (\<lambda>r. series_get (row_series raw r) ''Province'' = NA
                         \<or> is_Str (series_get (row_series raw r) ''Province'')) (rows raw)" for c
      using src [OF that(1)] that(2) by (auto simp: list_all_iff)
    moreover have "is_Num c" if "c \<in> set ?names"
      and "list_all (\<lambda>r. series_get (row_series raw r) ''Province'' = NA
                         \<or> is_Num (series_get (row_series raw r) ''Province'')) (rows raw)" for c
      using src [OF that(1)] that(2) by (auto simp: list_all_iff)
    moreover have "is_Stamp c" if "c \<in> set ?names"
      and "list_all (\<lambda>r. series_get (row_series raw r) ''Province'' = NA
                         \<or> is_Stamp (series_get (row_series raw r) ''Province'')) (rows raw)" for c
      using src [OF that(1)] that(2) by (auto simp: list_all_iff)
    ultimately show ?thesis
      using cat
      unfolding list_all_iff [of is_Str] list_all_iff [of is_Num] list_all_iff [of is_Stamp]
      by blast
  qed
  from py_sorted_one_kind [OF kind] obtain names where "py_sorted ?names = Inr names" ..
  then have opts: "province_list ?out = Inr (Str ''All Provinces'' # names)"
    unfolding province_list_def getcol_present [OF pc diso] bindE_def sum.case by simp
  let ?options = "Str ''All Provinces'' # names"
  from filtered_by_rows [OF pc diso, of "selectbox ?options pick"] obtain rs where
    f: "filtered_by ?out (selectbox ?options pick) = Inr (?out\<lparr>rows := rs\<rparr>)"
    and rs: "set rs \<subseteq> set (rows ?out)" by blast
  let ?f = "?out\<lparr>rows := rs\<rparr>"
  have cf: "columns ?f = ?cols" by (simp add: co)
  have wf: "wf_frame ?f"
  proof -
    have "length r = length ?cols" if "r \<in> set rs" for r
    proof -
      from that rs obtain r0 where "r0 \<in> set (rows raw)" "r = loaded_row parse raw r0"
        by (auto simp: ro)
      then show ?thesis using len by (simp add: length_loaded_row)
    qed
    with diso show ?thesis by (simp add: wf_frame_def list_all_iff co)
  qed
  let ?ok = "\<lambda>r. list_all (\<lambda>k. notna (series_get (row_series ?f r) k)) [''lat'', ''lon'']"
  let ?v = "?out\<lparr>rows := filter ?ok rs\<rparr>"
  have v: "valid_coords ?f = Inr ?v"
    using dropna_wf [OF wf, of "[''lat'', ''lon'']"] by (simp add: valid_coords_def co)
  obtain m where m: "missing_coords ?f = Inr m"
    using diso by (simp add: missing_coords_def getcol_present bindE_def co)
  have "series_get (row_series ?f r) ''SubmissionDate'' = NA
      \<or> is_Stamp (series_get (row_series ?f r) ''SubmissionDate'')" if "r \<in> set rs" for r
  proof -
    from that rs have "r \<in> set (rows ?out)" by blast
    from c2 [OF this] show ?thesis by (simp add: row_series_def co)
  qed
  then have "list_all (\<lambda>r. series_get (row_series ?f r) ''SubmissionDate'' = NA
                      \<or> is_Stamp (series_get (row_series ?f r) ''SubmissionDate'')) (rows ?f)"
    by (simp add: list_all_iff)
  from timeline_returns [OF wf _ this] dc obtain chart where t: "timeline ?f = Inr chart"
    and tk: "(\<exists>pts. chart = [St_plotly_line pts])
        \<or> chart = [St_info ''No valid SubmissionDate values found.'']"
    by auto
  have vr: "\<exists>r0 \<in> set (rows raw). series_get (row_series ?v r) ''lat'' = ?lat r0
        \<and> series_get (row_series ?v r) ''lon'' = ?lon r0
        \<and> ?lat r0 \<noteq> NA \<and> ?lon r0 \<noteq> NA" if "r \<in> set (rows ?v)" for r
  proof -
    from that rs have "r \<in> set (rows ?out)" by auto
    from c3 [OF this] that show ?thesis by (auto simp: row_series_def notna_def co)
  qed
  have latc: "list_all (\<lambda>r. is_Num (series_get (row_series ?v r) ''lat'')) (rows ?v)
       \<or> (dtype_of ?v ''lat'' = Datetime64
           \<and> list_all (\<lambda>r. is_Stamp (series_get (row_series ?v r) ''lat'')) (rows ?v))"
    using lat'
  proof
    assume a: "\<forall>r0 \<in> set (rows raw). ?lat r0 = NA \<or> is_Num (?lat r0)"
    have "is_Num (series_get (row_series ?v r) ''lat'')" if "r \<in> set (rows ?v)" for r
      using vr [OF that] a by auto
    then show ?thesis unfolding list_all_iff by blast
  next
    assume a: "\<forall>r0 \<in> set (rows raw). is_Stamp (?lat r0)"
    have "is_Stamp (series_get (row_series ?v r) ''lat'')" if "r \<in> set (rows ?v)" for r
      using vr [OF that] a by auto
    moreover have "dtype_of ?v ''lat'' = Datetime64"
      unfolding dtype_of_loaded(1) [OF la lo dt] using a ne0
      by (simp add: infer_dtype_def list_all_iff)
    ultimately show ?thesis unfolding list_all_iff by blast
  qed
  have lonc: "list_all (\<lambda>r. is_Num (series_get (row_series ?v r) ''lon'')) (rows ?v)
       \<or> (dtype_of ?v ''lon'' = Datetime64
           \<and> list_all (\<lambda>r. is_Stamp (series_get (row_series ?v r) ''lon'')) (rows ?v))"
    using lon'
  proof
    assume a: "\<forall>r0 \<in> set (rows raw). ?lon r0 = NA \<or> is_Num (?lon r0)"
    have "is_Num (series_get (row_series ?v r) ''lon'')" if "r \<in> set (rows ?v)" for r
      using vr [OF that] a by auto
    then show ?thesis unfolding list_all_iff by blast
  next
    assume a: "\<forall>r0 \<in> set (rows raw). is_Stamp (?lon r0)"
    have "is_Stamp (series_get (row_series ?v r) ''lon'')" if "r \<in> set (rows ?v)" for r
      using vr [OF that] a by auto
    moreover have "dtype_of ?v ''lon'' = Datetime64"
      unfolding dtype_of_loaded(2) [OF la lo dt] using a ne0
      by (simp add: infer_dtype_def list_all_iff)
    ultimately show ?thesis unfolding list_all_iff by blast
  qed
  have "''lat'' \<in> set (columns ?v)" and "''lon'' \<in> set (columns ?v)"
    and "distinct (columns ?v)"
    using lac loc diso by simp_all
  from map_returns [OF this latc lonc] obtain deck_map where
    dm: "map_of_submissions ?v = Inr deck_map"
    and dk: "(\<exists>dk. deck_map = [St_pydeck_chart dk])
        \<or> deck_map = [St_info ''No valid GPS coordinates found for the selected province.'']"
    by auto
  have "script parse (Some raw) pick =
       Inr (page_head @ [St_selectbox ''Select Province'' ?options]
            @ [St_header ''Submissions Over Time''] @ chart
            @ [St_markdown ''---'', St_header ''Map of Submissions''] @ deck_map
            @ [St_header ''Records with No GPS Points''] @ missing_report m)"
    unfolding script_def option.case ld prod.case sum.case opts bindE_def f v m t dm
    using ne by simp
  with ld opts f v m t tk dm dk
  show "\<exists>df options filtered valid missing chart deck_map.
           load_data parse raw = ([], Inr df)
         \<and> province_list df = Inr options
         \<and> filtered_by df (selectbox options pick) = Inr filtered
         \<and> valid_coords filtered = Inr valid
         \<and> missing_coords filtered = Inr missing
         \<and> timeline filtered = Inr chart
         \<and> ((\<exists>pts. chart = [St_plotly_line pts])
             \<or> chart = [St_info ''No valid SubmissionDate values found.''])
         \<and> map_of_submissions valid = Inr deck_map
         \<and> ((\<exists>dk. deck_map = [St_pydeck_chart dk])
             \<or> deck_map = [St_info ''No valid GPS coordinates found for the selected province.''])
         \<and> script parse (Some raw) pick =
             Inr (page_head @ [St_selectbox ''Select Province'' options]
                  @ [St_header ''Submissions Over Time''] @ chart
                  @ [St_markdown ''---'', St_header ''Map of Submissions''] @ deck_map
                  @ [St_header ''Records with No GPS Points''] @ missing_report missing)"
    by blast
qed

theorem script_completes_witness:
  "wf_frame \<lparr>columns = [''Province'', ''SubmissionDate'', ''Geopoint1-Latitude'',
                ''Geopoint1-Longitude''],
      dtypes = [Other, Other, Other, Other],
      rows = [[Str ''A'', Str ''2024-01-15'', Num 34, Num 69], [NA, Str ''soon'', NA, Num 3]]\<rparr>
   \<and> (\<exists>options chart deck_map missing.
        script example_parser
          (Some \<lparr>columns = [''Province'', ''SubmissionDate'', ''Geopoint1-Latitude'',
                   ''Geopoint1-Longitude''],
                 dtypes = [Other, Other, Other, Other],
                 rows = [[Str ''A'', Str ''2024-01-15'', Num 34, Num 69],
                         [NA, Str ''soon'', NA, Num 3]]\<rparr>)
          (Str ''A'') =
        Inr (page_head @ [St_selectbox ''Select Province'' options]
            @ [St_header ''Submissions Over Time''] @ chart
            @ [St_markdown ''---'', St_header ''Map of Submissions''] @ deck_map
            @ [St_header ''Records with No GPS Points''] @ missing_report missing))
   \<and> script example_parser
        (Some \<lparr>columns = [''Province'', ''SubmissionDate''], dtypes = [Other, Other],
               rows = []\<rparr>) (Str ''A'') = Inr page_head"
proof -
  let ?raw = "\<lparr>columns = [''Province'', ''SubmissionDate'', ''Geopoint1-Latitude'',
                ''Geopoint1-Longitude''],
      dtypes = [Other, Other, Other, Other],
      rows = [[Str ''A'', Str ''2024-01-15'', Num 34, Num 69], [NA, Str ''soon'', NA, Num 3]]\<rparr>"
  let ?none = "\<lparr>columns = [''Province'', ''SubmissionDate''], dtypes = [Other, Other],
      rows = []\<rparr>"
  have w: "wf_frame ?raw" "wf_frame ?none" by (simp_all add: wf_frame_def)
  have dt: "length (dtypes ?raw) = length (columns ?raw)"
      "length (dtypes ?none) = length (columns ?none)"
    and p: "''Province'' \<in> set (columns ?raw)" "''Province'' \<in> set (columns ?none)"
    and d: "''SubmissionDate'' \<in> set (columns ?raw)" "''SubmissionDate'' \<in> set (columns ?none)"
    and la: "''lat'' \<notin> set (columns ?raw)" "''lat'' \<notin> set (columns ?none)"
    and lo: "''lon'' \<notin> set (columns ?raw)" "''lon'' \<notin> set (columns ?none)"
    and n: "rows ?raw \<noteq> [] \<or> length (columns ?raw) = 2"
      "rows ?none \<noteq> [] \<or> length (columns ?none) = 2"
    by simp_all
  have off: "\<not> mixed_offsets example_parser
      (map (\<lambda>r. series_get (row_series ?raw r) ''SubmissionDate'') (rows ?raw))"
    "\<not> mixed_offsets example_parser
      (map (\<lambda>r. series_get (row_series ?none r) ''SubmissionDate'') (rows ?none))"
    by (simp_all add: mixed_offsets_def readings_def row_series_def series_get_def notna_def
        example_parser_def text_format_def text_reading_def)
  have cat: "list_all (\<lambda>r. series_get (row_series ?raw r) ''Province'' = NA
                         \<or> is_Str (series_get (row_series ?raw r) ''Province'')) (rows ?raw)
            \<or> list_all (\<lambda>r. series_get (row_series ?raw r) ''Province'' = NA
                         \<or> is_Num (series_get (row_series ?raw r) ''Province'')) (rows ?raw)
            \<or> list_all (\<lambda>r. series_get (row_series ?raw r) ''Province'' = NA
                         \<or> is_Stamp (series_get (row_series ?raw r) ''Province'')) (rows ?raw)"
    "list_all (\<lambda>r. series_get (row_series ?none r) ''Province'' = NA
                         \<or> is_Str (series_get (row_series ?none r) ''Province'')) (rows ?none)
            \<or> list_all (\<lambda>r. series_get (row_series ?none r) ''Province'' = NA
                         \<or> is_Num (series_get (row_series ?none r) ''Province'')) (rows ?none)
            \<or> list_all (\<lambda>r. series_get (row_series ?none r) ''Province'' = NA
                         \<or> is_Stamp (series_get (row_series ?none r) ''Province'')) (rows ?none)"
    by (simp_all add: row_series_def series_get_def)
  have lat: "list_all (\<lambda>r. fst (projr (pick_coordinates (row_series ?raw r))) = NA
                         \<or> is_Num (fst (projr (pick_coordinates (row_series ?raw r)))))
                (rows ?raw)
            \<or> list_all (\<lambda>r. is_Stamp (fst (projr (pick_coordinates (row_series ?raw r)))))
                (rows ?raw)"
    "list_all (\<lambda>r. fst (projr (pick_coordinates (row_series ?none r))) = NA
                         \<or> is_Num (fst (projr (pick_coordinates (row_series ?none r)))))
                (rows ?none)
            \<or> list_all (\<lambda>r. is_Stamp (fst (projr (pick_coordinates (row_series ?none r)))))
                (rows ?none)"
    by (simp_all add: pick_coordinates_def series_getitem_def bindE_def row_series_def
        series_get_def notna_def)
  have lon: "list_all (\<lambda>r. snd (projr (pick_coordinates (row_series ?raw r))) = NA
                         \<or> is_Num (snd (projr (pick_coordinates (row_series ?raw r)))))
                (rows ?raw)
            \<or> list_all (\<lambda>r. is_Stamp (snd (projr (pick_coordinates (row_series ?raw r)))))
                (rows ?raw)"
    "list_all (\<lambda>r. snd (projr (pick_coordinates (row_series ?none r))) = NA
                         \<or> is_Num (snd (projr (pick_coordinates (row_series ?none r)))))
                (rows ?none)
            \<or> list_all (\<lambda>r. is_Stamp (snd (projr (pick_coordinates (row_series ?none r)))))
                (rows ?none)"
    by (simp_all add: pick_coordinates_def series_getitem_def bindE_def row_series_def
        series_get_def notna_def)
  have r: "rows ?raw \<noteq> []" and e: "rows ?none = []" by simp_all
  from script_completes [OF w(1) dt(1) p(1) d(1) la(1) lo(1) n(1) off(1) cat(1) lat(1) lon(1),
      of "Str ''A''"] r
  have "\<exists>options chart deck_map missing.
        script example_parser (Some ?raw) (Str ''A'') =
        Inr (page_head @ [St_selectbox ''Select Province'' options]
            @ [St_header ''Submissions Over Time''] @ chart
            @ [St_markdown ''---'', St_header ''Map of Submissions''] @ deck_map
            @ [St_header ''Records with No GPS Points''] @ missing_report missing)"
    by blast
  moreover
  from script_completes [OF w(2) dt(2) p(2) d(2) la(2) lo(2) n(2) off(2) cat(2) lat(2) lon(2),
      of "Str ''A''"] e
  have "script example_parser (Some ?none) (Str ''A'') = Inr page_head" by blast
  ultimately show ?thesis using w(1) by blast
qed

text \<open>
  The claim as written covers arbitrarily malformed cells. A text in a coordinate column
  is copied into lat unchecked, the row goes to the map, and the mean of the latitudes
  raises \<^verbatim>\<open>TypeError\<close>: the run ends in an uncaught exception.
\<close>

theorem malformed_coordinate_crashes:
  "script stamps_only (Some \<lparr>columns = [''Province'', ''SubmissionDate'',
        ''Geopoint1-Latitude'', ''Geopoint1-Longitude''],
      dtypes = [Other, Datetime64, Other, Other],
      rows = [[Str ''Kabul'', Stamp 5, Str ''34.5N'', Num 69]]\<rparr>) (Str ''All Provinces'')
     = Inl TypeError"
proof -
  let ?raw = "\<lparr>columns = [''Province'', ''SubmissionDate'',
        ''Geopoint1-Latitude'', ''Geopoint1-Longitude''],
      dtypes = [Other, Datetime64, Other, Other],
      rows = [[Str ''Kabul'', Stamp 5, Str ''34.5N'', Num 69]]\<rparr>"
  let ?out = "\<lparr>columns = [''Province'', ''SubmissionDate'',
        ''Geopoint1-Latitude'', ''Geopoint1-Longitude'', ''lat'', ''lon''],
      dtypes = [Other, Datetime64, Other, Other, Other, Other],
      rows = [[Str ''Kabul'', Stamp 5, Str ''34.5N'', Num 69, Str ''34.5N'', Num 69]]\<rparr>"
  have l: "load_data stamps_only ?raw = ([], Inr ?out)"
    by (simp add: load_eval)
  have o: "province_list ?out = Inr [Str ''All Provinces'', Str ''Kabul'']"
    by (simp add: province_list_def getcol_def bindE_def py_sorted_def row_series_def
        series_get_def notna_def)
  have f: "filtered_by ?out (Str ''All Provinces'') = Inr ?out"
    by (simp add: filtered_by_def)
  have v: "valid_coords ?out = Inr ?out"
    by (simp add: valid_coords_def dropna_def row_series_def series_get_def notna_def)
  have m: "missing_coords ?out = Inr (?out\<lparr>rows := []\<rparr>)"
    by (simp add: missing_coords_def getcol_def bindE_def bool_index_def row_series_def
        series_get_def isna_def)
  have t: "timeline ?out = Inr [St_plotly_line [(0, 1)]]"
    by (simp add: timeline_def getcol_def bindE_def dropna_def dt_date_def groupby_size_def
        row_series_def series_get_def notna_def ns_per_day_def)
  have d: "map_of_submissions ?out = Inl TypeError"
    by (simp add: map_of_submissions_def df_empty_def getcol_def bindE_def mean_def
        dtype_of_def row_series_def series_get_def notna_def)
  show ?thesis
    unfolding script_def option.case l prod.case sum.case o bindE_def
    by (simp add: df_empty_def selectbox_def f v m t d bindE_def)
qed

text \<open>
  The other conditions of the theorem, each with the run it keeps out. Province cells of
  one kind: a spreadsheet column can hold a text in one row and a number in another, and
  \<^verbatim>\<open>sorted\<close> (line 65) cannot order the two.
\<close>

lemma mixed_categories_raise:
  "script stamps_only (Some \<lparr>columns = [''Province'', ''SubmissionDate''],
      dtypes = [Other, Datetime64],
      rows = [[Str ''A'', Stamp 5], [Num 1, Stamp 5]]\<rparr>) (Str ''All Provinces'')
     = Inl TypeError"
proof -
  let ?raw = "\<lparr>columns = [''Province'', ''SubmissionDate''], dtypes = [Other, Datetime64],
      rows = [[Str ''A'', Stamp 5], [Num 1, Stamp 5]]\<rparr>"
  let ?out = "\<lparr>columns = [''Province'', ''SubmissionDate'', ''lat'', ''lon''],
      dtypes = [Other, Datetime64, Other, Other],
      rows = [[Str ''A'', Stamp 5, NA, NA], [Num 1, Stamp 5, NA, NA]]\<rparr>"
  have l: "load_data stamps_only ?raw = ([], Inr ?out)"
    by (simp add: load_eval)
  have o: "province_list ?out = Inl TypeError"
    by (simp add: province_list_def getcol_def bindE_def py_sorted_def row_series_def
        series_get_def notna_def)
  show ?thesis
    unfolding script_def option.case l prod.case sum.case o bindE_def
    by (simp add: df_empty_def)
qed

text \<open>
  Timestamps read with one UTC offset: two values with different offsets end the run at
  line 42.
\<close>

lemma mixed_offsets_crash:
  "script example_parser
     (Some \<lparr>columns = [''Province'', ''SubmissionDate''], dtypes = [Other, Other],
            rows = [[Str ''A'', Str ''2024-01-15T10:00:00+01:00''],
                    [Str ''B'', Str ''2024-01-15T10:00:00+02:00'']]\<rparr>) (Str ''All Provinces'')
     = Inl ValueError"
  by (simp add: script_def load_data_mixed date_column_def mixed_offsets_def readings_def
      row_series_def series_get_def notna_def example_parser_def text_format_def
      text_reading_def)

text \<open>
  A row, or no third column: a header-only table with a third column ends the run at
  line 54.
\<close>

lemma header_only_crash:
  "script stamps_only
     (Some \<lparr>columns = [''Province'', ''SubmissionDate'', ''KEY''],
            dtypes = [Other, Other, Other], rows = []\<rparr>) (Str ''All Provinces'')
     = Inl ValueError"
  by (simp add: script_def load_data_no_rows)

text \<open>
  No column named lat or lon: with such a column the run ends at line 74, as shown with
  claim C2. Resolved coordinates that are numbers or null in every row, or timestamps in
  every row: timestamps are averaged when the whole lat column of the loaded table holds
  timestamps, and the mean raises \<^verbatim>\<open>TypeError\<close> when a row without coordinates has made
  it an object column.
\<close>

lemma timestamp_coordinates:
  "map_of_submissions
     \<lparr>columns = [''Province'', ''lat'', ''lon''], dtypes = [Other, Datetime64, Other],
      rows = [[Str ''A'', Stamp 10, Num 69], [Str ''A'', Stamp 20, Num 62]]\<rparr>
     = Inr [St_pydeck_chart
         \<lparr>layer_data = \<lparr>columns = [''Province'', ''lat'', ''lon''],
                        dtypes = [Other, Datetime64, Other],
                        rows = [[Str ''A'', Stamp 10, Num 69], [Str ''A'', Stamp 20, Num 62]]\<rparr>,
          latitude = Stamp 15, longitude = Num (131 / 2), zoom = 6, pitch = 0\<rparr>]
   \<and> script stamps_only (Some \<lparr>columns = [''Province'', ''SubmissionDate'',
        ''Geopoint1-Latitude'', ''Geopoint1-Longitude''],
      dtypes = [Other, Datetime64, Datetime64, Other],
      rows = [[Str ''A'', Stamp 5, Stamp 10, Num 69], [Str ''B'', Stamp 5, NA, NA]]\<rparr>)
      (Str ''All Provinces'')
     = Inl TypeError"
proof -
  let ?raw = "\<lparr>columns = [''Province'', ''SubmissionDate'',
        ''Geopoint1-Latitude'', ''Geopoint1-Longitude''],
      dtypes = [Other, Datetime64, Datetime64, Other],
      rows = [[Str ''A'', Stamp 5, Stamp 10, Num 69], [Str ''B'', Stamp 5, NA, NA]]\<rparr>"
  let ?out = "\<lparr>columns = [''Province'', ''SubmissionDate'',
        ''Geopoint1-Latitude'', ''Geopoint1-Longitude'', ''lat'', ''lon''],
      dtypes = [Other, Datetime64, Datetime64, Other, Other, Other],
      rows = [[Str ''A'', Stamp 5, Stamp 10, Num 69, Stamp 10, Num 69],
              [Str ''B'', Stamp 5, NA, NA, NA, NA]]\<rparr>"
  let ?valid = "\<lparr>columns = [''Province'', ''SubmissionDate'',
        ''Geopoint1-Latitude'', ''Geopoint1-Longitude'', ''lat'', ''lon''],
      dtypes = [Other, Datetime64, Datetime64, Other, Other, Other],
      rows = [[Str ''A'', Stamp 5, Stamp 10, Num 69, Stamp 10, Num 69]]\<rparr>"
  have l: "load_data stamps_only ?raw = ([], Inr ?out)"
    by (simp add: load_eval)
  have o: "province_list ?out = Inr [Str ''All Provinces'', Str ''A'', Str ''B'']"
    by (simp add: province_list_def getcol_def bindE_def py_sorted_def row_series_def
        series_get_def notna_def)
  have f: "filtered_by ?out (Str ''All Provinces'') = Inr ?out"
    by (simp add: filtered_by_def)
  have v: "valid_coords ?out = Inr ?valid"
    by (simp add: valid_coords_def dropna_def row_series_def series_get_def notna_def)
  have m: "missing_coords ?out = Inr (?out\<lparr>rows := [[Str ''B'', Stamp 5, NA, NA, NA, NA]]\<rparr>)"
    by (simp add: missing_coords_def getcol_def bindE_def bool_index_def row_series_def
        series_get_def isna_def)
  have t: "timeline ?out = Inr [St_plotly_line [(0, 2)]]"
    by (simp add: timeline_def getcol_def bindE_def dropna_def dt_date_def groupby_size_def
        row_series_def series_get_def notna_def ns_per_day_def)
  have d: "map_of_submissions ?valid = Inl TypeError"
    by (simp add: map_of_submissions_def df_empty_def getcol_def bindE_def mean_def
        dtype_of_def row_series_def series_get_def notna_def)
  have s: "script stamps_only (Some ?raw) (Str ''All Provinces'') = Inl TypeError"
    unfolding script_def option.case l prod.case sum.case o bindE_def
    by (simp add: df_empty_def selectbox_def f v m t d bindE_def)
  have "map_of_submissions
     \<lparr>columns = [''Province'', ''lat'', ''lon''], dtypes = [Other, Datetime64, Other],
      rows = [[Str ''A'', Stamp 10, Num 69], [Str ''A'', Stamp 20, Num 62]]\<rparr>
     = Inr [St_pydeck_chart
         \<lparr>layer_data = \<lparr>columns = [''Province'', ''lat'', ''lon''],
                        dtypes = [Other, Datetime64, Other],
                        rows = [[Str ''A'', Stamp 10, Num 69], [Str ''A'', Stamp 20, Num 62]]\<rparr>,
          latitude = Stamp 15, longitude = Num (131 / 2), zoom = 6, pitch = 0\<rparr>]"
    by (simp add: map_of_submissions_def df_empty_def getcol_def bindE_def mean_def
        dtype_of_def row_series_def series_get_def notna_def)
  with s show ?thesis by simp
qed

end
